theory Spec2Isabelle
  imports Complex_Main
begin

section \<open>JavaScript numbers\<close>

text \<open>
  The pattern generators of \<^verbatim>\<open>patternGenerator.js\<close> compute with JavaScript numbers.
  A number is modelled as an exact real, one of the two infinities, or NaN. The
  operations are exact: a finite result is the mathematical one (no rounding to a double,
  no overflow), and the two zeros are one value, taken as \<open>+0\<close> where a sign is
  needed (a division by zero). Every operation below follows the case table that
  ECMAScript gives for it. The constant \<^verbatim>\<open>Math.PI\<close> is the double that the code uses, not
  \<open>\<pi>\<close>, so that an angle of 360 degrees is short of a full turn, as it is in the code.
  Properties that would fail on doubles of extreme size are stated for arguments of
  moderate size, and properties of a rounded quantity are stated as the expression that
  the code evaluates.
\<close>

datatype jsnum = Num real | PInf | NInf | NaN

text \<open>The infinity that a finite \<open>a\<close> gives when multiplied by \<open>+Infinity\<close>
  or divided by \<open>+0\<close>; \<open>0 * Infinity\<close> and \<open>0 / 0\<close> are NaN.\<close>

definition inf_sign :: "real \<Rightarrow> jsnum" where
  "inf_sign a = (if a = 0 then NaN else if 0 < a then PInf else NInf)"

instantiation jsnum :: "{plus, minus, uminus, times, inverse}"
begin

fun uminus_jsnum :: "jsnum \<Rightarrow> jsnum" where
  "- Num a = Num (- a)"
| "- PInf = NInf"
| "- NInf = PInf"
| "- NaN = NaN"

fun plus_jsnum :: "jsnum \<Rightarrow> jsnum \<Rightarrow> jsnum" where
  "Num a + Num b = Num (a + b)"
| "NaN + _ = NaN"
| "_ + NaN = NaN"
| "PInf + NInf = NaN"
| "NInf + PInf = NaN"
| "PInf + _ = PInf"
| "_ + PInf = PInf"
| "NInf + _ = NInf"
| "_ + NInf = NInf"

definition minus_jsnum :: "jsnum \<Rightarrow> jsnum \<Rightarrow> jsnum" where
  "(a :: jsnum) - b = a + (- b)"

fun times_jsnum :: "jsnum \<Rightarrow> jsnum \<Rightarrow> jsnum" where
  "Num a * Num b = Num (a * b)"
| "NaN * _ = NaN"
| "_ * NaN = NaN"
| "Num a * PInf = inf_sign a"
| "Num a * NInf = inf_sign (- a)"
| "PInf * Num b = inf_sign b"
| "NInf * Num b = inf_sign (- b)"
| "PInf * PInf = PInf"
| "PInf * NInf = NInf"
| "NInf * PInf = NInf"
| "NInf * NInf = PInf"

fun divide_jsnum :: "jsnum \<Rightarrow> jsnum \<Rightarrow> jsnum" where
  "Num a div Num b = (if b = 0 then inf_sign a else Num (a / b))"
| "NaN div _ = NaN"
| "_ div NaN = NaN"
| "Num a div PInf = Num 0"
| "Num a div NInf = Num 0"
| "PInf div Num b = (if b < 0 then NInf else PInf)"
| "NInf div Num b = (if b < 0 then PInf else NInf)"
| "PInf div PInf = NaN"
| "PInf div NInf = NaN"
| "NInf div PInf = NaN"
| "NInf div NInf = NaN"

definition inverse_jsnum :: "jsnum \<Rightarrow> jsnum" where
  "inverse (a :: jsnum) = Num 1 div a"

instance ..

end

text \<open>The remainder operator \<^verbatim>\<open>%\<close>: the result has the sign of the dividend
  (the quotient is truncated towards zero).\<close>

definition trunc :: "real \<Rightarrow> int" where
  "trunc r = (if 0 \<le> r then \<lfloor>r\<rfloor> else \<lceil>r\<rceil>)"

fun js_rem :: "jsnum \<Rightarrow> jsnum \<Rightarrow> jsnum" where
  "js_rem (Num a) (Num b) = (if b = 0 then NaN else Num (a - b * of_int (trunc (a / b))))"
| "js_rem (Num a) PInf = Num a"
| "js_rem (Num a) NInf = Num a"
| "js_rem _ _ = NaN"

text \<open>The comparisons \<^verbatim>\<open><\<close>, \<^verbatim>\<open>>\<close> and \<^verbatim>\<open>>=\<close>: false when an operand is NaN.\<close>

fun js_lt :: "jsnum \<Rightarrow> jsnum \<Rightarrow> bool" where
  "js_lt (Num a) (Num b) = (a < b)"
| "js_lt NaN _ = False"
| "js_lt _ NaN = False"
| "js_lt _ NInf = False"
| "js_lt PInf _ = False"
| "js_lt NInf _ = True"
| "js_lt _ PInf = True"

definition js_gt :: "jsnum \<Rightarrow> jsnum \<Rightarrow> bool" where
  "js_gt a b = js_lt b a"

fun js_ge :: "jsnum \<Rightarrow> jsnum \<Rightarrow> bool" where
  "js_ge NaN _ = False"
| "js_ge _ NaN = False"
| "js_ge a b = (\<not> js_lt a b)"

text \<open>Truthiness of a number: \<open>0\<close> and NaN are falsy.\<close>

fun truthy :: "jsnum \<Rightarrow> bool" where
  "truthy (Num a) = (a \<noteq> 0)"
| "truthy NaN = False"
| "truthy _ = True"

text \<open>\<^verbatim>\<open>a || b\<close> on numbers.\<close>

definition js_or :: "jsnum \<Rightarrow> jsnum \<Rightarrow> jsnum" where
  "js_or a b = (if truthy a then a else b)"

subsection \<open>The Math object\<close>

text \<open>\<^verbatim>\<open>Math.PI\<close> is a double, the one nearest to \<open>\<pi>\<close>: \<open>3.141592653589793\<close>, which
  is \<open>884279719003555 / 2^48\<close>, a little below \<open>\<pi>\<close>.\<close>

definition Math_PI_value :: real where
  "Math_PI_value = 884279719003555 / 281474976710656"

definition Math_PI :: jsnum where
  "Math_PI = Num Math_PI_value"

fun Math_abs :: "jsnum \<Rightarrow> jsnum" where
  "Math_abs (Num a) = Num \<bar>a\<bar>"
| "Math_abs PInf = PInf"
| "Math_abs NInf = PInf"
| "Math_abs NaN = NaN"

fun Math_floor :: "jsnum \<Rightarrow> jsnum" where
  "Math_floor (Num a) = Num (of_int \<lfloor>a\<rfloor>)"
| "Math_floor a = a"

fun Math_ceil :: "jsnum \<Rightarrow> jsnum" where
  "Math_ceil (Num a) = Num (of_int \<lceil>a\<rceil>)"
| "Math_ceil a = a"

text \<open>\<^verbatim>\<open>Math.round\<close> rounds to the nearest integer, a tie towards \<open>+Infinity\<close>.\<close>

fun Math_round :: "jsnum \<Rightarrow> jsnum" where
  "Math_round (Num a) = Num (of_int \<lfloor>a + 1 / 2\<rfloor>)"
| "Math_round a = a"

fun Math_sqrt :: "jsnum \<Rightarrow> jsnum" where
  "Math_sqrt (Num a) = (if a < 0 then NaN else Num (sqrt a))"
| "Math_sqrt PInf = PInf"
| "Math_sqrt _ = NaN"

fun Math_cos :: "jsnum \<Rightarrow> jsnum" where
  "Math_cos (Num a) = Num (cos a)"
| "Math_cos _ = NaN"

fun Math_sin :: "jsnum \<Rightarrow> jsnum" where
  "Math_sin (Num a) = Num (sin a)"
| "Math_sin _ = NaN"

text \<open>\<^verbatim>\<open>Math.max\<close> and \<^verbatim>\<open>Math.min\<close> of two arguments; a call with three
  arguments is the nested call.\<close>

fun Math_max :: "jsnum \<Rightarrow> jsnum \<Rightarrow> jsnum" where
  "Math_max (Num a) (Num b) = Num (max a b)"
| "Math_max NaN _ = NaN"
| "Math_max _ NaN = NaN"
| "Math_max PInf _ = PInf"
| "Math_max _ PInf = PInf"
| "Math_max NInf b = b"
| "Math_max a NInf = a"

fun Math_min :: "jsnum \<Rightarrow> jsnum \<Rightarrow> jsnum" where
  "Math_min (Num a) (Num b) = Num (min a b)"
| "Math_min NaN _ = NaN"
| "Math_min _ NaN = NaN"
| "Math_min NInf _ = NInf"
| "Math_min _ NInf = NInf"
| "Math_min PInf b = b"
| "Math_min a PInf = a"

text \<open>\<^verbatim>\<open>Math.atan2(y, x)\<close>: the angle of the point \<open>(x, y)\<close> in \<open>(-\<pi>, \<pi>]\<close>.\<close>

definition atan2 :: "real \<Rightarrow> real \<Rightarrow> real" where
  "atan2 y x =
     (if 0 < x then arctan (y / x)
      else if x < 0 then (if 0 \<le> y then arctan (y / x) + pi else arctan (y / x) - pi)
      else if 0 < y then pi / 2
      else if y < 0 then - pi / 2
      else 0)"

fun Math_atan2 :: "jsnum \<Rightarrow> jsnum \<Rightarrow> jsnum" where
  "Math_atan2 (Num y) (Num x) = Num (atan2 y x)"
| "Math_atan2 NaN _ = NaN"
| "Math_atan2 _ NaN = NaN"
| "Math_atan2 (Num y) PInf = Num 0"
| "Math_atan2 (Num y) NInf = Num (if 0 \<le> y then pi else - pi)"
| "Math_atan2 PInf (Num x) = Num (pi / 2)"
| "Math_atan2 NInf (Num x) = Num (- pi / 2)"
| "Math_atan2 PInf PInf = Num (pi / 4)"
| "Math_atan2 PInf NInf = Num (3 * pi / 4)"
| "Math_atan2 NInf PInf = Num (- pi / 4)"
| "Math_atan2 NInf NInf = Num (- 3 * pi / 4)"

section \<open>Arrays, cells and the grid\<close>

text \<open>\<^verbatim>\<open>Array(n)\<close> throws a RangeError unless \<open>n\<close> is an integer in \<open>[0, 2^32)\<close>; it is the
  only operation of the generators that throws. Sizes are integers here (the
  configuration's \<open>width\<close> and \<open>height\<close> are stitch counts).\<close>

datatype error = RangeError

definition Array_fill :: "int \<Rightarrow> 'a \<Rightarrow> error + 'a list" where
  "Array_fill n v = (if 0 \<le> n \<and> n < 2 ^ 32 then Inr (replicate (nat n) v) else Inl RangeError)"

text \<open>\<^verbatim>\<open>xs[i]\<close> for a number \<open>i\<close>: the element when \<open>i\<close> is an integer index of the
  array, \<^verbatim>\<open>undefined\<close> (\<open>None\<close>) otherwise, as for a negative, fractional or NaN index.\<close>

fun js_index :: "'a list \<Rightarrow> jsnum \<Rightarrow> 'a option" where
  "js_index xs (Num r) =
     (if r = of_int \<lfloor>r\<rfloor> \<and> 0 \<le> r \<and> r < real (length xs) then Some (xs ! nat \<lfloor>r\<rfloor>) else None)"
| "js_index xs _ = None"

text \<open>A cell \<^verbatim>\<open>{color, level}\<close>; the colour is \<open>None\<close> when the array read gave
  \<^verbatim>\<open>undefined\<close>. A grid entry is \<open>None\<close> while it still holds the \<^verbatim>\<open>null\<close> it was
  filled with.\<close>

record cell =
  cell_color :: "string option"
  cell_level :: jsnum

type_synonym grid = "cell option list list"

text \<open>\<^verbatim>\<open>Array(height).fill(null).map(() => Array(width).fill(null))\<close>: the callback, and with
  it \<^verbatim>\<open>Array(width)\<close>, runs once per row, so not at all when \<open>height = 0\<close>.\<close>

definition new_grid :: "int \<Rightarrow> int \<Rightarrow> error + grid" where
  "new_grid width height =
     (case Array_fill height () of
        Inl e \<Rightarrow> Inl e
      | Inr rows \<Rightarrow>
          if rows = [] then Inr []
          else (case Array_fill width None of
                  Inl e \<Rightarrow> Inl e
                | Inr row \<Rightarrow> Inr (map (\<lambda>_. row) rows)))"

text \<open>\<^verbatim>\<open>for (let i = i0; i < n; i++) body\<close>, threading the state the body mutates.\<close>

function for_loop :: "nat \<Rightarrow> nat \<Rightarrow> (nat \<Rightarrow> 's \<Rightarrow> 's) \<Rightarrow> 's \<Rightarrow> 's" where
  "for_loop i n body s = (if i < n then for_loop (Suc i) n body (body i s) else s)"
  by pat_completeness auto
termination
  by (relation "measure (\<lambda>(i, n, body, s). n - i)") auto

declare for_loop.simps [simp del]

text \<open>\<^verbatim>\<open>grid[y][x] = c\<close>.\<close>

definition set_cell :: "grid \<Rightarrow> nat \<Rightarrow> nat \<Rightarrow> cell \<Rightarrow> grid" where
  "set_cell grid y x c = grid[y := (grid ! y)[x := Some c]]"

text \<open>The two nested loops over \<open>y\<close> and \<open>x\<close> that every generator runs, writing the
  cell computed for \<open>(x, y)\<close>.\<close>

definition fill_grid :: "(nat \<Rightarrow> nat \<Rightarrow> cell) \<Rightarrow> int \<Rightarrow> int \<Rightarrow> grid \<Rightarrow> grid" where
  "fill_grid cell_at width height grid =
     for_loop 0 (nat height)
       (\<lambda>y. for_loop 0 (nat width) (\<lambda>x grid. set_cell grid y x (cell_at x y))) grid"

section \<open>Shared pieces of the concentric generators\<close>

text \<open>An optional number argument (\<^verbatim>\<open>layerThickness = null\<close> by default): its truthiness
  and its numeric value (\<^verbatim>\<open>null\<close> converts to \<open>0\<close>).\<close>

fun is_truthy :: "real option \<Rightarrow> bool" where
  "is_truthy None = False"
| "is_truthy (Some t) = truthy (Num t)"

fun to_number :: "real option \<Rightarrow> jsnum" where
  "to_number None = Num 0"
| "to_number (Some t) = Num t"

text \<open>The centre of the fabric along one axis: \<^verbatim>\<open>(width - 1) / 2 + offsetX\<close>.\<close>

definition center :: "int \<Rightarrow> real \<Rightarrow> jsnum" where
  "center extent offset = (Num (of_int extent) - Num 1) / Num 2 + Num offset"

text \<open>\<^verbatim>\<open>(tilt * Math.PI) / 180\<close>.\<close>

definition tiltRad :: "real \<Rightarrow> jsnum" where
  "tiltRad tilt = (Num tilt * Math_PI) / Num 180"

text \<open>The four corners \<^verbatim>\<open>{x, y}\<close> sampled for the maximum distance.\<close>

definition corners :: "int \<Rightarrow> int \<Rightarrow> (jsnum \<times> jsnum) list" where
  "corners width height =
     [(Num 0, Num 0),
      (Num (of_int width) - Num 1, Num 0),
      (Num 0, Num (of_int height) - Num 1),
      (Num (of_int width) - Num 1, Num (of_int height) - Num 1)]"

text \<open>The level of a stitch at \<open>distance\<close> (the same lines in the squares, circles and
  polygons generators): thickness mode when \<open>layerThickness\<close> is truthy, count mode
  otherwise.\<close>

definition layer_level :: "jsnum \<Rightarrow> jsnum \<Rightarrow> real option \<Rightarrow> int \<Rightarrow> jsnum" where
  "layer_level distance maxDistance layerThickness numLayers =
     (if is_truthy layerThickness
      then Math_floor ((distance + to_number layerThickness / Num 2) / to_number layerThickness)
      else Math_min (Math_floor ((distance / js_or maxDistance (Num 1)) * Num (of_int numLayers)))
             (Num (of_int numLayers) - Num 1))"

text \<open>\<^verbatim>\<open>colorIndex = level % colors.length\<close> and the cell
  \<^verbatim>\<open>{color: colors[colorIndex], level: colorIndex}\<close>.\<close>

definition layer_cell :: "string list \<Rightarrow> jsnum \<Rightarrow> cell" where
  "layer_cell colors level =
     (let colorIndex = js_rem level (Num (real (length colors)))
      in \<lparr>cell_color = js_index colors colorIndex, cell_level = colorIndex\<rparr>)"

text \<open>The layer count that is returned: derived from \<open>maxDistance\<close> in thickness mode,
  the argument otherwise.\<close>

definition actual_layers :: "jsnum \<Rightarrow> real option \<Rightarrow> int \<Rightarrow> jsnum" where
  "actual_layers maxDistance layerThickness numLayers =
     (if is_truthy layerThickness
      then Math_max (Num 1)
             (Math_ceil ((maxDistance + to_number layerThickness / Num 2) / to_number layerThickness))
      else Num (of_int numLayers))"

text \<open>The fields every returned pattern object has.\<close>

record pattern =
  p_grid :: grid
  p_width :: int
  p_height :: int
  p_colors :: "string list"
  p_offsetX :: real
  p_offsetY :: real

section \<open>generateConcentricSquares\<close>

record squares_pattern = pattern +
  sq_numSquares :: jsnum
  sq_ratioX :: real
  sq_ratioY :: real
  sq_layerThickness :: "real option"
  sq_tilt :: real

definition squares_rx :: "jsnum \<Rightarrow> jsnum \<Rightarrow> jsnum \<Rightarrow> jsnum \<Rightarrow> real \<Rightarrow> jsnum" where
  "squares_rx dx dy cosTilt sinTilt ratioX =
     (Math_abs (dx * cosTilt + dy * sinTilt) + Num (1 / 10 ^ 10)) / Num ratioX"

definition squares_ry :: "jsnum \<Rightarrow> jsnum \<Rightarrow> jsnum \<Rightarrow> jsnum \<Rightarrow> real \<Rightarrow> jsnum" where
  "squares_ry dx dy cosTilt sinTilt ratioY =
     (Math_abs ((- dx) * sinTilt + dy * cosTilt) + Num (1 / 10 ^ 10)) / Num ratioY"

text \<open>The \<^verbatim>\<open>corners.forEach\<close> loop, from \<^verbatim>\<open>maxDistance = 0\<close>.\<close>

definition squares_maxDistance :: "int \<Rightarrow> int \<Rightarrow> real \<Rightarrow> real \<Rightarrow> real \<Rightarrow> real \<Rightarrow> real \<Rightarrow> jsnum" where
  "squares_maxDistance width height ratioX ratioY tilt offsetX offsetY =
     fold (\<lambda>corner maxDistance.
        let dx = fst corner - center width offsetX;
            dy = snd corner - center height offsetY;
            rx = squares_rx dx dy (Math_cos (tiltRad tilt)) (Math_sin (tiltRad tilt)) ratioX;
            ry = squares_ry dx dy (Math_cos (tiltRad tilt)) (Math_sin (tiltRad tilt)) ratioY
        in Math_max (Math_max maxDistance rx) ry)
       (corners width height) (Num 0)"

definition squares_distance :: "int \<Rightarrow> int \<Rightarrow> real \<Rightarrow> real \<Rightarrow> real \<Rightarrow> real \<Rightarrow> real \<Rightarrow> nat \<Rightarrow> nat \<Rightarrow> jsnum" where
  "squares_distance width height ratioX ratioY tilt offsetX offsetY x y =
     (let dx = Num (real x) - center width offsetX;
          dy = Num (real y) - center height offsetY;
          rx = squares_rx dx dy (Math_cos (tiltRad tilt)) (Math_sin (tiltRad tilt)) ratioX;
          ry = squares_ry dx dy (Math_cos (tiltRad tilt)) (Math_sin (tiltRad tilt)) ratioY
      in Math_max rx ry)"

definition squares_cell ::
  "int \<Rightarrow> int \<Rightarrow> int \<Rightarrow> string list \<Rightarrow> real \<Rightarrow> real \<Rightarrow> real option \<Rightarrow> real \<Rightarrow> real \<Rightarrow> real \<Rightarrow> nat \<Rightarrow> nat \<Rightarrow> cell" where
  "squares_cell width height numSquares colors ratioX ratioY layerThickness tilt offsetX offsetY x y =
     layer_cell colors
       (layer_level (squares_distance width height ratioX ratioY tilt offsetX offsetY x y)
          (squares_maxDistance width height ratioX ratioY tilt offsetX offsetY)
          layerThickness numSquares)"

definition generateConcentricSquares ::
  "int \<Rightarrow> int \<Rightarrow> int \<Rightarrow> string list \<Rightarrow> real \<Rightarrow> real \<Rightarrow> real option \<Rightarrow> real \<Rightarrow> real \<Rightarrow> real
     \<Rightarrow> error + squares_pattern" where
  "generateConcentricSquares width height numSquares colors ratioX ratioY layerThickness tilt offsetX offsetY =
     (case new_grid width height of
        Inl e \<Rightarrow> Inl e
      | Inr grid \<Rightarrow>
          Inr \<lparr>p_grid = fill_grid
                  (squares_cell width height numSquares colors ratioX ratioY layerThickness tilt offsetX offsetY)
                  width height grid,
               p_width = width, p_height = height, p_colors = colors,
               p_offsetX = offsetX, p_offsetY = offsetY,
               sq_numSquares = actual_layers
                  (squares_maxDistance width height ratioX ratioY tilt offsetX offsetY)
                  layerThickness numSquares,
               sq_ratioX = ratioX, sq_ratioY = ratioY, sq_layerThickness = layerThickness,
               sq_tilt = tilt\<rparr>)"

section \<open>generateStripes\<close>

record stripes_pattern = pattern +
  st_stripeWidth :: real
  st_tilt :: real

definition stripes_cell ::
  "int \<Rightarrow> int \<Rightarrow> real \<Rightarrow> string list \<Rightarrow> real \<Rightarrow> real \<Rightarrow> real \<Rightarrow> nat \<Rightarrow> nat \<Rightarrow> cell" where
  "stripes_cell width height stripeWidth colors tilt offsetX offsetY x y =
     (let dx = Num (real x) - center width offsetX;
          dy = Num (real y) - center height offsetY;
          rx = dx * Math_cos (tiltRad tilt) + dy * Math_sin (tiltRad tilt) + Num (1 / 10 ^ 10);
          stripePos = Math_floor (rx / Num stripeWidth);
          n = Num (real (length colors));
          stripeIndex = js_rem (js_rem stripePos n + n) n
      in \<lparr>cell_color = js_index colors stripeIndex, cell_level = stripeIndex\<rparr>)"

definition generateStripes ::
  "int \<Rightarrow> int \<Rightarrow> real \<Rightarrow> string list \<Rightarrow> real \<Rightarrow> real \<Rightarrow> real \<Rightarrow> error + stripes_pattern" where
  "generateStripes width height stripeWidth colors tilt offsetX offsetY =
     (case new_grid width height of
        Inl e \<Rightarrow> Inl e
      | Inr grid \<Rightarrow>
          Inr \<lparr>p_grid = fill_grid (stripes_cell width height stripeWidth colors tilt offsetX offsetY)
                  width height grid,
               p_width = width, p_height = height, p_colors = colors,
               p_offsetX = offsetX, p_offsetY = offsetY,
               st_stripeWidth = stripeWidth, st_tilt = tilt\<rparr>)"

section \<open>generateIsometricCubes\<close>

record cubes_pattern = pattern +
  cu_cubeSize :: real

text \<open>Rounding the fractional hex coordinates \<open>(q, r, -q-r)\<close> to the nearest hexagon:
  the coordinate with the largest rounding error is recomputed from the other two.\<close>

definition cube_round :: "jsnum \<Rightarrow> jsnum \<Rightarrow> jsnum \<times> jsnum \<times> jsnum" where
  "cube_round q r =
     (let rx = Math_round q;
          ry = Math_round r;
          rz = Math_round (- q - r);
          x_diff = Math_abs (rx - q);
          y_diff = Math_abs (ry - r);
          z_diff = Math_abs (rz - (- q - r))
      in if js_gt x_diff y_diff \<and> js_gt x_diff z_diff then (- ry - rz, ry, rz)
         else if js_gt y_diff z_diff then (rx, - rx - rz, rz)
         else (rx, ry, - rx - ry))"

text \<open>\<^verbatim>\<open>hexRadius = Math.max(2, cubeSize)\<close>.\<close>

definition hexRadius :: "real \<Rightarrow> jsnum" where
  "hexRadius cubeSize = Math_max (Num 2) (Num cubeSize)"

text \<open>The rounded hex coordinates \<open>(rx, ry, rz)\<close> of the stitch \<open>(x, y)\<close>.\<close>

definition cubes_rounded ::
  "int \<Rightarrow> int \<Rightarrow> real \<Rightarrow> real \<Rightarrow> real \<Rightarrow> nat \<Rightarrow> nat \<Rightarrow> jsnum \<times> jsnum \<times> jsnum" where
  "cubes_rounded width height cubeSize offsetX offsetY x y =
     (let adjX = Num (real x) - center width offsetX;
          adjY = Num (real y) - center height offsetY;
          q = (Math_sqrt (Num 3) / Num 3 * adjX - Num 1 / Num 3 * adjY) / hexRadius cubeSize;
          r = (Num 2 / Num 3 * adjY) / hexRadius cubeSize
      in cube_round q r)"

text \<open>The face of the cube for an angle in degrees: top, right or left.\<close>

definition faceIndex :: "jsnum \<Rightarrow> nat" where
  "faceIndex angle =
     (if js_ge angle (Num (- 150)) \<and> js_lt angle (Num (- 30)) then 0
      else if js_ge angle (Num (- 30)) \<and> js_lt angle (Num 90) then 1
      else 2)"

text \<open>\<^verbatim>\<open>colorMap = [colors[0 % colors.length], colors[1 % colors.length], colors[2 % colors.length]]\<close>.\<close>

definition colorMap :: "string list \<Rightarrow> string option list" where
  "colorMap colors =
     [js_index colors (js_rem (Num 0) (Num (real (length colors)))),
      js_index colors (js_rem (Num 1) (Num (real (length colors)))),
      js_index colors (js_rem (Num 2) (Num (real (length colors))))]"

definition cubes_cell ::
  "int \<Rightarrow> int \<Rightarrow> real \<Rightarrow> string list \<Rightarrow> real \<Rightarrow> real \<Rightarrow> nat \<Rightarrow> nat \<Rightarrow> cell" where
  "cubes_cell width height cubeSize colors offsetX offsetY x y =
     (let adjX = Num (real x) - center width offsetX;
          adjY = Num (real y) - center height offsetY;
          (rx, ry, rz) = cubes_rounded width height cubeSize offsetX offsetY x y;
          hexCenterX = hexRadius cubeSize * Math_sqrt (Num 3) * (rx + ry / Num 2);
          hexCenterY = hexRadius cubeSize * Num 3 / Num 2 * ry;
          angle = Math_atan2 (adjY - hexCenterY) (adjX - hexCenterX) * Num 180 / Math_PI
      in \<lparr>cell_color = colorMap colors ! faceIndex angle,
          cell_level = Num (real (faceIndex angle))\<rparr>)"

definition generateIsometricCubes ::
  "int \<Rightarrow> int \<Rightarrow> real \<Rightarrow> string list \<Rightarrow> real \<Rightarrow> real \<Rightarrow> error + cubes_pattern" where
  "generateIsometricCubes width height cubeSize colors offsetX offsetY =
     (case new_grid width height of
        Inl e \<Rightarrow> Inl e
      | Inr grid \<Rightarrow>
          Inr \<lparr>p_grid = fill_grid (cubes_cell width height cubeSize colors offsetX offsetY)
                  width height grid,
               p_width = width, p_height = height, p_colors = colors,
               p_offsetX = offsetX, p_offsetY = offsetY,
               cu_cubeSize = cubeSize\<rparr>)"

section \<open>generateConcentricCircles\<close>

record circles_pattern = pattern +
  ci_numLayers :: jsnum
  ci_ratioX :: real
  ci_ratioY :: real
  ci_layerThickness :: "real option"
  ci_tilt :: real

text \<open>The corner loop rotates and scales without the \<open>1e-10\<close> that the stitch loop adds.\<close>

definition circles_maxDistance :: "int \<Rightarrow> int \<Rightarrow> real \<Rightarrow> real \<Rightarrow> real \<Rightarrow> real \<Rightarrow> real \<Rightarrow> jsnum" where
  "circles_maxDistance width height ratioX ratioY tilt offsetX offsetY =
     fold (\<lambda>corner maxDistance.
        let dx = fst corner - center width offsetX;
            dy = snd corner - center height offsetY;
            rx = (dx * Math_cos (tiltRad tilt) + dy * Math_sin (tiltRad tilt)) / Num ratioX;
            ry = ((- dx) * Math_sin (tiltRad tilt) + dy * Math_cos (tiltRad tilt)) / Num ratioY
        in Math_max maxDistance (Math_sqrt (rx * rx + ry * ry)))
       (corners width height) (Num 0)"


definition circles_distance :: "int \<Rightarrow> int \<Rightarrow> real \<Rightarrow> real \<Rightarrow> real \<Rightarrow> real \<Rightarrow> real \<Rightarrow> nat \<Rightarrow> nat \<Rightarrow> jsnum" where
  "circles_distance width height ratioX ratioY tilt offsetX offsetY x y =
     (let dx = Num (real x) - center width offsetX;
          dy = Num (real y) - center height offsetY;
          rx = (dx * Math_cos (tiltRad tilt) + dy * Math_sin (tiltRad tilt) + Num (1 / 10 ^ 10)) / Num ratioX;
          ry = ((- dx) * Math_sin (tiltRad tilt) + dy * Math_cos (tiltRad tilt) + Num (1 / 10 ^ 10)) / Num ratioY
      in Math_sqrt (rx * rx + ry * ry))"

definition circles_cell ::
  "int \<Rightarrow> int \<Rightarrow> int \<Rightarrow> string list \<Rightarrow> real \<Rightarrow> real \<Rightarrow> real option \<Rightarrow> real \<Rightarrow> real \<Rightarrow> real \<Rightarrow> nat \<Rightarrow> nat \<Rightarrow> cell" where
  "circles_cell width height numLayers colors ratioX ratioY layerThickness tilt offsetX offsetY x y =
     layer_cell colors
       (layer_level (circles_distance width height ratioX ratioY tilt offsetX offsetY x y)
          (circles_maxDistance width height ratioX ratioY tilt offsetX offsetY)
          layerThickness numLayers)"

definition generateConcentricCircles ::
  "int \<Rightarrow> int \<Rightarrow> int \<Rightarrow> string list \<Rightarrow> real \<Rightarrow> real \<Rightarrow> real option \<Rightarrow> real \<Rightarrow> real \<Rightarrow> real
     \<Rightarrow> error + circles_pattern" where
  "generateConcentricCircles width height numLayers colors ratioX ratioY layerThickness tilt offsetX offsetY =
     (case new_grid width height of
        Inl e \<Rightarrow> Inl e
      | Inr grid \<Rightarrow>
          Inr \<lparr>p_grid = fill_grid
                  (circles_cell width height numLayers colors ratioX ratioY layerThickness tilt offsetX offsetY)
                  width height grid,
               p_width = width, p_height = height, p_colors = colors,
               p_offsetX = offsetX, p_offsetY = offsetY,
               ci_numLayers = actual_layers
                  (circles_maxDistance width height ratioX ratioY tilt offsetX offsetY)
                  layerThickness numLayers,
               ci_ratioX = ratioX, ci_ratioY = ratioY, ci_layerThickness = layerThickness,
               ci_tilt = tilt\<rparr>)"

section \<open>generateConcentricPolygons\<close>

record polygons_pattern = pattern +
  po_numSides :: jsnum
  po_numLayers :: jsnum
  po_ratioX :: real
  po_ratioY :: real
  po_layerThickness :: "real option"
  po_tilt :: real

text \<open>\<^verbatim>\<open>sides = Math.max(3, numSides)\<close> and \<^verbatim>\<open>angleStep = (2 * Math.PI) / sides\<close>.\<close>

definition sides :: "int \<Rightarrow> jsnum" where
  "sides numSides = Math_max (Num 3) (Num (of_int numSides))"

definition angleStep :: "int \<Rightarrow> jsnum" where
  "angleStep numSides = (Num 2 * Math_PI) / sides numSides"

text \<open>The distance of the scaled point \<open>(rx, ry)\<close> to the polygon's edge direction:
  \<^verbatim>\<open>r * Math.cos((((theta % angleStep) + angleStep) % angleStep) - angleStep / 2)\<close>.\<close>

definition polygon_metric :: "jsnum \<Rightarrow> jsnum \<Rightarrow> jsnum \<Rightarrow> jsnum" where
  "polygon_metric rx ry step =
     (let r = Math_sqrt (rx * rx + ry * ry);
          theta = Math_atan2 ry rx
      in r * Math_cos (js_rem (js_rem theta step + step) step - step / Num 2))"

definition polygons_maxDistance ::
  "int \<Rightarrow> int \<Rightarrow> int \<Rightarrow> real \<Rightarrow> real \<Rightarrow> real \<Rightarrow> real \<Rightarrow> real \<Rightarrow> jsnum" where
  "polygons_maxDistance width height numSides ratioX ratioY tilt offsetX offsetY =
     fold (\<lambda>corner maxDistance.
        let dx = fst corner - center width offsetX;
            dy = snd corner - center height offsetY;
            rx = (dx * Math_cos (tiltRad tilt) + dy * Math_sin (tiltRad tilt)) / Num ratioX;
            ry = ((- dx) * Math_sin (tiltRad tilt) + dy * Math_cos (tiltRad tilt)) / Num ratioY
        in Math_max maxDistance (polygon_metric rx ry (angleStep numSides)))
       (corners width height) (Num 0)"


definition polygons_distance ::
  "int \<Rightarrow> int \<Rightarrow> int \<Rightarrow> real \<Rightarrow> real \<Rightarrow> real \<Rightarrow> real \<Rightarrow> real \<Rightarrow> nat \<Rightarrow> nat \<Rightarrow> jsnum" where
  "polygons_distance width height numSides ratioX ratioY tilt offsetX offsetY x y =
     (let dx = Num (real x) - center width offsetX;
          dy = Num (real y) - center height offsetY;
          rx = (dx * Math_cos (tiltRad tilt) + dy * Math_sin (tiltRad tilt) + Num (1 / 10 ^ 10)) / Num ratioX;
          ry = ((- dx) * Math_sin (tiltRad tilt) + dy * Math_cos (tiltRad tilt) + Num (1 / 10 ^ 10)) / Num ratioY
      in polygon_metric rx ry (angleStep numSides))"

definition polygons_cell ::
  "int \<Rightarrow> int \<Rightarrow> int \<Rightarrow> int \<Rightarrow> string list \<Rightarrow> real \<Rightarrow> real \<Rightarrow> real option \<Rightarrow> real \<Rightarrow> real \<Rightarrow> real
     \<Rightarrow> nat \<Rightarrow> nat \<Rightarrow> cell" where
  "polygons_cell width height numSides numLayers colors ratioX ratioY layerThickness tilt offsetX offsetY x y =
     layer_cell colors
       (layer_level (polygons_distance width height numSides ratioX ratioY tilt offsetX offsetY x y)
          (polygons_maxDistance width height numSides ratioX ratioY tilt offsetX offsetY)
          layerThickness numLayers)"

definition generateConcentricPolygons ::
  "int \<Rightarrow> int \<Rightarrow> int \<Rightarrow> int \<Rightarrow> string list \<Rightarrow> real \<Rightarrow> real \<Rightarrow> real option \<Rightarrow> real \<Rightarrow> real \<Rightarrow> real
     \<Rightarrow> error + polygons_pattern" where
  "generateConcentricPolygons width height numSides numLayers colors ratioX ratioY layerThickness tilt offsetX offsetY =
     (case new_grid width height of
        Inl e \<Rightarrow> Inl e
      | Inr grid \<Rightarrow>
          Inr \<lparr>p_grid = fill_grid
                  (polygons_cell width height numSides numLayers colors ratioX ratioY layerThickness tilt
                     offsetX offsetY)
                  width height grid,
               p_width = width, p_height = height, p_colors = colors,
               p_offsetX = offsetX, p_offsetY = offsetY,
               po_numSides = sides numSides,
               po_numLayers = actual_layers
                  (polygons_maxDistance width height numSides ratioX ratioY tilt offsetX offsetY)
                  layerThickness numLayers,
               po_ratioX = ratioX, po_ratioY = ratioY, po_layerThickness = layerThickness,
               po_tilt = tilt\<rparr>)"

section \<open>Configurations and grids that the properties speak about\<close>

text \<open>The sizes for which allocating the grid does not throw.\<close>

definition valid_dims :: "int \<Rightarrow> int \<Rightarrow> bool" where
  "valid_dims width height =
     (0 \<le> height \<and> height < 2 ^ 32 \<and> (height = 0 \<or> 0 \<le> width \<and> width < 2 ^ 32))"

text \<open>The sizes of a valid configuration: positive integers (that an array can have).\<close>

definition positive_dims :: "int \<Rightarrow> int \<Rightarrow> bool" where
  "positive_dims width height = (1 \<le> width \<and> width < 2 ^ 32 \<and> 1 \<le> height \<and> height < 2 ^ 32)"

text \<open>The size specification of a valid configuration: a positive layer thickness, or no
  thickness and a positive layer count.\<close>

fun valid_size :: "real option \<Rightarrow> int \<Rightarrow> bool" where
  "valid_size None numLayers = (1 \<le> numLayers)"
| "valid_size (Some t) numLayers = (0 < t)"

text \<open>Every entry of the grid holds a cell, and the cell satisfies \<open>P\<close>.\<close>

definition all_cells :: "(cell \<Rightarrow> bool) \<Rightarrow> grid \<Rightarrow> bool" where
  "all_cells P grid =
     list_all (list_all (\<lambda>entry. case entry of None \<Rightarrow> False | Some c \<Rightarrow> P c)) grid"

text \<open>The grid has \<open>height\<close> rows of \<open>width\<close> entries.\<close>

definition has_shape :: "grid \<Rightarrow> int \<Rightarrow> int \<Rightarrow> bool" where
  "has_shape grid width height =
     (int (length grid) = height \<and> list_all (\<lambda>row. int (length row) = width) grid)"

text \<open>The stored level is a number in the half-open interval \<open>[0, n)\<close>.\<close>

definition level_in :: "nat \<Rightarrow> cell \<Rightarrow> bool" where
  "level_in n c = (case cell_level c of Num r \<Rightarrow> 0 \<le> r \<and> r < real n | _ \<Rightarrow> False)"

text \<open>The cell of a layer index that is not negative: level and colour cycle through the
  colours.\<close>

definition cycled_cell :: "string list \<Rightarrow> int \<Rightarrow> cell" where
  "cycled_cell colors layer =
     \<lparr>cell_color = Some (colors ! nat (layer mod int (length colors))),
      cell_level = Num (real_of_int (layer mod int (length colors)))\<rparr>"

text \<open>The cell of a layer index below zero: the level is the sign-keeping remainder
  \<open>-((-layer) mod colors.length)\<close>, and the colour read at a negative index is
  \<^verbatim>\<open>undefined\<close>.\<close>

definition wrapped_cell :: "string list \<Rightarrow> int \<Rightarrow> cell" where
  "wrapped_cell colors layer =
     \<lparr>cell_color = (if (- layer) mod int (length colors) = 0 then Some (colors ! 0) else None),
      cell_level = Num (- real_of_int ((- layer) mod int (length colors)))\<rparr>"

text \<open>Arguments of moderate size. The model computes with exact reals, the code with
  doubles, whose results become an infinity beyond about \<open>1.8e308\<close> and then NaN in a
  quotient of two infinities. For offsets, tilt and counts of at most \<open>1e9\<close> in size, and
  ratios, thicknesses and stripe widths between \<open>1e-9\<close> and \<open>1e9\<close>, no operation of the
  generators leaves the finite doubles; the properties that need finite distances are
  stated for such arguments.\<close>

definition moderate :: "real \<Rightarrow> bool" where
  "moderate v = (\<bar>v\<bar> \<le> 10 ^ 9)"

definition moderate_scale :: "real \<Rightarrow> bool" where
  "moderate_scale v = (1 / 10 ^ 9 \<le> v \<and> v \<le> 10 ^ 9)"

definition moderate_geometry :: "real \<Rightarrow> real \<Rightarrow> real \<Rightarrow> real \<Rightarrow> real \<Rightarrow> bool" where
  "moderate_geometry ratioX ratioY tilt offsetX offsetY =
     (moderate_scale ratioX \<and> moderate_scale ratioY \<and> moderate tilt
        \<and> moderate offsetX \<and> moderate offsetY)"

text \<open>The size specification of a valid configuration, of moderate size: a layer
  thickness, or no thickness and a positive layer count.\<close>

fun moderate_size :: "real option \<Rightarrow> int \<Rightarrow> bool" where
  "moderate_size None numLayers = (1 \<le> numLayers \<and> numLayers \<le> 10 ^ 9)"
| "moderate_size (Some t) numLayers = moderate_scale t"

text \<open>The rotated coordinates of the grid position \<open>(x, y)\<close> as reals, before the scaling
  by the ratios: \<^verbatim>\<open>dx * cosTilt + dy * sinTilt\<close> and \<^verbatim>\<open>-dx * sinTilt + dy * cosTilt\<close>. The
  proofs about the circles and polygons generators are written with them.\<close>

definition rotated_x :: "int \<Rightarrow> int \<Rightarrow> real \<Rightarrow> real \<Rightarrow> real \<Rightarrow> nat \<Rightarrow> nat \<Rightarrow> real" where
  "rotated_x width height tilt offsetX offsetY x y =
     (real x - ((real_of_int width - 1) / 2 + offsetX)) * cos (tilt * Math_PI_value / 180)
       + (real y - ((real_of_int height - 1) / 2 + offsetY)) * sin (tilt * Math_PI_value / 180)"




section \<open>The grid that the loops build\<close>

text \<open>The nested loops overwrite every entry of the freshly allocated grid: the grid that a
  generator returns holds, at row \<open>y\<close> and column \<open>x\<close>, the cell computed for \<open>(x, y)\<close>.\<close>

lemma for_loop_row:
  "n \<le> length row \<Longrightarrow> i \<le> n \<Longrightarrow>
   for_loop i n (\<lambda>x r. r[x := f x]) row = take i row @ map f [i..<n] @ drop n row"
proof (induction i n "\<lambda>x (r :: 'a list). r[x := f x]" row rule: for_loop.induct)
  case (1 i n row)
  show ?case
  proof (cases "i < n")
    case True
    have len: "n \<le> length (row[i := f i])" using 1 by simp
    have "for_loop i n (\<lambda>x r. r[x := f x]) row = for_loop (Suc i) n (\<lambda>x r. r[x := f x]) (row[i := f i])"
      using True by (subst for_loop.simps) simp
    also have "\<dots> = take (Suc i) (row[i := f i]) @ map f [Suc i..<n] @ drop n (row[i := f i])"
      using 1(1)[OF True len] True by simp
    also have "\<dots> = take i row @ map f [i..<n] @ drop n row"
      using True 1(2) by (simp add: take_Suc_conv_app_nth upt_conv_Cons)
    finally show ?thesis .
  next
    case False
    with 1 have "i = n" by simp
    then show ?thesis by (subst for_loop.simps) simp
  qed
qed

lemma for_loop_set_cell:
  "y < length g \<Longrightarrow>
   for_loop i n (\<lambda>x g. set_cell g y x (c x)) g
     = g[y := for_loop i n (\<lambda>x r. r[x := Some (c x)]) (g ! y)]"
proof (induction i n "\<lambda>x g. set_cell g y x (c x)" g rule: for_loop.induct)
  case (1 i n g)
  show ?case
  proof (cases "i < n")
    case True
    have len: "y < length (set_cell g y i (c i))" using 1(2) by (simp add: set_cell_def)
    show ?thesis
      using 1(1)[OF True len] True 1(2)
      by (subst for_loop.simps, subst (2) for_loop.simps) (simp add: set_cell_def)
  next
    case False
    then show ?thesis
      by (subst for_loop.simps, subst (2) for_loop.simps) simp
  qed
qed

lemma fill_row:
  "y < length g \<Longrightarrow> length (g ! y) = w \<Longrightarrow>
   for_loop 0 w (\<lambda>x g. set_cell g y x (c x)) g = g[y := map (\<lambda>x. Some (c x)) [0..<w]]"
  by (simp add: for_loop_set_cell for_loop_row)

lemma for_loop_rows:
  "h \<le> length g \<Longrightarrow> j \<le> h \<Longrightarrow> \<forall>row \<in> set g. length row = w \<Longrightarrow>
   for_loop j h (\<lambda>y. for_loop 0 w (\<lambda>x g. set_cell g y x (c x y))) g
     = take j g @ map (\<lambda>y. map (\<lambda>x. Some (c x y)) [0..<w]) [j..<h] @ drop h g"
proof (induction j h "\<lambda>y. for_loop 0 w (\<lambda>x g. set_cell g y x (c x y))" g rule: for_loop.induct)
  case (1 j h g)
  let ?body = "\<lambda>y. for_loop 0 w (\<lambda>x g. set_cell g y x (c x y))"
  let ?new = "\<lambda>y. map (\<lambda>x. Some (c x y)) [0..<w]"
  show ?case
  proof (cases "j < h")
    case True
    have jl: "j < length g" using True 1(2) by simp
    have row: "length (g ! j) = w" using jl 1(4) by simp
    have step: "?body j g = g[j := ?new j]"
      using fill_row[OF jl row, of "\<lambda>x. c x j"] by simp
    have len: "h \<le> length (g[j := ?new j])" using 1(2) by simp
    have rows: "\<forall>row \<in> set (g[j := ?new j]). length row = w"
      using 1(4) by (auto dest!: set_update_subset_insert[THEN subsetD])
    have "for_loop j h ?body g = for_loop (Suc j) h ?body (g[j := ?new j])"
      using True step by (subst for_loop.simps) simp
    also have "\<dots> = take (Suc j) (g[j := ?new j]) @ map ?new [Suc j..<h] @ drop h (g[j := ?new j])"
      using 1(1)[OF True] len rows True step by simp
    also have "\<dots> = take j g @ map ?new [j..<h] @ drop h g"
      using True jl by (simp add: take_Suc_conv_app_nth upt_conv_Cons)
    finally show ?thesis .
  next
    case False
    with 1 have "j = h" by simp
    then show ?thesis by (subst for_loop.simps) simp
  qed
qed

lemma new_grid_Inr:
  "new_grid width height = Inr g \<Longrightarrow>
   g = replicate (nat height) (replicate (nat width) None) \<and> 0 \<le> height \<and> (0 < height \<longrightarrow> 0 \<le> width)"
  by (auto simp: new_grid_def Array_fill_def map_replicate_const split: if_splits)

lemma fill_grid_new:
  assumes "new_grid width height = Inr g"
  shows "fill_grid c width height g
           = map (\<lambda>y. map (\<lambda>x. Some (c x y)) [0..<nat width]) [0..<nat height]"
proof -
  from new_grid_Inr[OF assms]
  have g: "g = replicate (nat height) (replicate (nat width) None)" by simp
  have "for_loop 0 (nat height) (\<lambda>y. for_loop 0 (nat width) (\<lambda>x g. set_cell g y x (c x y))) g
      = take 0 g @ map (\<lambda>y. map (\<lambda>x. Some (c x y)) [0..<nat width]) [0..<nat height] @ drop (nat height) g"
    by (rule for_loop_rows) (simp_all add: g)
  then show ?thesis by (simp add: fill_grid_def g)
qed

lemma new_grid_valid:
  "valid_dims width height \<Longrightarrow>
   new_grid width height = Inr (replicate (nat height) (replicate (nat width) None))"
  by (auto simp: valid_dims_def new_grid_def Array_fill_def map_replicate_const)

lemma new_grid_invalid:
  "\<not> valid_dims width height \<Longrightarrow> new_grid width height = Inl RangeError"
  by (auto simp: valid_dims_def new_grid_def Array_fill_def)

lemma positive_dims_valid: "positive_dims width height \<Longrightarrow> valid_dims width height"
  by (simp add: positive_dims_def valid_dims_def)

lemma all_cells_map:
  "(\<And>x y. P (c x y)) \<Longrightarrow> all_cells P (map (\<lambda>y. map (\<lambda>x. Some (c x y)) xs) ys)"
  by (simp add: all_cells_def list_all_iff)

lemma generateConcentricSquares_valid:
  assumes "valid_dims width height"
  shows "generateConcentricSquares width height numSquares colors ratioX ratioY layerThickness tilt offsetX offsetY
     = Inr \<lparr>p_grid = map (\<lambda>y. map (\<lambda>x. Some
                 (squares_cell width height numSquares colors ratioX ratioY layerThickness tilt offsetX offsetY x y))
                 [0..<nat width]) [0..<nat height],
            p_width = width, p_height = height, p_colors = colors,
            p_offsetX = offsetX, p_offsetY = offsetY,
            sq_numSquares = actual_layers
               (squares_maxDistance width height ratioX ratioY tilt offsetX offsetY)
               layerThickness numSquares,
            sq_ratioX = ratioX, sq_ratioY = ratioY, sq_layerThickness = layerThickness,
            sq_tilt = tilt\<rparr>"
  by (simp add: generateConcentricSquares_def new_grid_valid[OF assms]
      fill_grid_new[OF new_grid_valid[OF assms]])

lemma generateConcentricCircles_valid:
  assumes "valid_dims width height"
  shows "generateConcentricCircles width height numLayers colors ratioX ratioY layerThickness tilt offsetX offsetY
     = Inr \<lparr>p_grid = map (\<lambda>y. map (\<lambda>x. Some
                 (circles_cell width height numLayers colors ratioX ratioY layerThickness tilt offsetX offsetY x y))
                 [0..<nat width]) [0..<nat height],
            p_width = width, p_height = height, p_colors = colors,
            p_offsetX = offsetX, p_offsetY = offsetY,
            ci_numLayers = actual_layers
               (circles_maxDistance width height ratioX ratioY tilt offsetX offsetY)
               layerThickness numLayers,
            ci_ratioX = ratioX, ci_ratioY = ratioY, ci_layerThickness = layerThickness,
            ci_tilt = tilt\<rparr>"
  by (simp add: generateConcentricCircles_def new_grid_valid[OF assms]
      fill_grid_new[OF new_grid_valid[OF assms]])

lemma generateConcentricPolygons_valid:
  assumes "valid_dims width height"
  shows "generateConcentricPolygons width height numSides numLayers colors ratioX ratioY layerThickness tilt
           offsetX offsetY
     = Inr \<lparr>p_grid = map (\<lambda>y. map (\<lambda>x. Some
                 (polygons_cell width height numSides numLayers colors ratioX ratioY layerThickness tilt
                    offsetX offsetY x y))
                 [0..<nat width]) [0..<nat height],
            p_width = width, p_height = height, p_colors = colors,
            p_offsetX = offsetX, p_offsetY = offsetY,
            po_numSides = sides numSides,
            po_numLayers = actual_layers
               (polygons_maxDistance width height numSides ratioX ratioY tilt offsetX offsetY)
               layerThickness numLayers,
            po_ratioX = ratioX, po_ratioY = ratioY, po_layerThickness = layerThickness,
            po_tilt = tilt\<rparr>"
  by (simp add: generateConcentricPolygons_def new_grid_valid[OF assms]
      fill_grid_new[OF new_grid_valid[OF assms]])

lemma generateStripes_valid:
  assumes "valid_dims width height"
  shows "generateStripes width height stripeWidth colors tilt offsetX offsetY
     = Inr \<lparr>p_grid = map (\<lambda>y. map (\<lambda>x. Some
                 (stripes_cell width height stripeWidth colors tilt offsetX offsetY x y))
                 [0..<nat width]) [0..<nat height],
            p_width = width, p_height = height, p_colors = colors,
            p_offsetX = offsetX, p_offsetY = offsetY,
            st_stripeWidth = stripeWidth, st_tilt = tilt\<rparr>"
  by (simp add: generateStripes_def new_grid_valid[OF assms]
      fill_grid_new[OF new_grid_valid[OF assms]])

lemma generateIsometricCubes_valid:
  assumes "valid_dims width height"
  shows "generateIsometricCubes width height cubeSize colors offsetX offsetY
     = Inr \<lparr>p_grid = map (\<lambda>y. map (\<lambda>x. Some
                 (cubes_cell width height cubeSize colors offsetX offsetY x y))
                 [0..<nat width]) [0..<nat height],
            p_width = width, p_height = height, p_colors = colors,
            p_offsetX = offsetX, p_offsetY = offsetY,
            cu_cubeSize = cubeSize\<rparr>"
  by (simp add: generateIsometricCubes_def new_grid_valid[OF assms]
      fill_grid_new[OF new_grid_valid[OF assms]])

lemma grid_nth:
  "x < w \<Longrightarrow> y < h \<Longrightarrow> map (\<lambda>y. map (\<lambda>x. Some (c x y)) [0..<w]) [0..<h] ! y ! x = Some (c x y)"
  by simp


lemma upt3: "[0..<3] = [0, Suc 0, 2]" by (simp add: upt_rec)

lemma upt4: "[0..<4] = [0, Suc 0, 2, 3]" by (simp add: upt_rec)

section \<open>Arithmetic on finite numbers\<close>

text \<open>On finite numbers the operations are those of the reals; only a division by zero
  leaves them.\<close>

lemma Num_minus [simp]: "Num a - Num b = Num (a - b)"
  by (simp add: minus_jsnum_def)

lemma Num_divide [simp]: "b \<noteq> 0 \<Longrightarrow> Num a / Num b = Num (a / b)"
  by simp

lemma Num_divide_zero [simp]: "Num a / Num 0 = inf_sign a"
  by simp

declare divide_jsnum.simps(1) [simp del]

lemma center_Num: "center extent offset = Num ((real_of_int extent - 1) / 2 + offset)"
  by (simp add: center_def)

lemma tiltRad_Num: "tiltRad tilt = Num (tilt * Math_PI_value / 180)"
  by (simp add: tiltRad_def Math_PI_def)

lemma hexRadius_Num: "hexRadius cubeSize = Num (max 2 cubeSize)"
  by (simp add: hexRadius_def)

section \<open>The remainder of integers\<close>

text \<open>On integers \<^verbatim>\<open>%\<close> is the remainder of the truncated division: \<open>k mod n\<close> for a
  dividend that is not negative, \<open>- ((- k) mod n)\<close> for a negative one.\<close>

lemma trunc_of_int_div:
  assumes "0 < n"
  shows "trunc (real_of_int k / real_of_int n) = (if 0 \<le> k then k div n else - ((- k) div n))"
proof (cases "0 \<le> k")
  case True
  then have "0 \<le> real_of_int k / real_of_int n" using assms by simp
  then show ?thesis using True by (simp add: trunc_def floor_divide_of_int_eq)
next
  case False
  then have neg: "real_of_int k / real_of_int n < 0" using assms by (simp add: divide_neg_pos)
  have "\<lceil>real_of_int k / real_of_int n\<rceil> = - \<lfloor>real_of_int (- k) / real_of_int n\<rfloor>"
    by (simp add: ceiling_def)
  also have "\<dots> = - ((- k) div n)" by (simp only: floor_divide_of_int_eq)
  finally show ?thesis using False neg by (simp add: trunc_def)
qed

lemma js_rem_of_int:
  assumes "0 < n"
  shows "js_rem (Num (real_of_int k)) (Num (real_of_int n))
           = Num (real_of_int (if 0 \<le> k then k mod n else - ((- k) mod n)))"
proof -
  have "real_of_int k - real_of_int n * real_of_int (trunc (real_of_int k / real_of_int n))
      = real_of_int (k - n * (if 0 \<le> k then k div n else - ((- k) div n)))"
    by (simp only: trunc_of_int_div[OF assms] of_int_diff of_int_mult)
  also have "k - n * (if 0 \<le> k then k div n else - ((- k) div n))
      = (if 0 \<le> k then k mod n else - ((- k) mod n))"
  proof (cases "0 \<le> k")
    case True
    then show ?thesis by (simp add: minus_mult_div_eq_mod)
  next
    case False
    have "- k - n * ((- k) div n) = (- k) mod n" by (rule minus_mult_div_eq_mod)
    then have "k - n * (- ((- k) div n)) = - ((- k) mod n)" by simp
    then show ?thesis using False by simp
  qed
  finally show ?thesis using assms by simp
qed

section \<open>Levels and colour indices\<close>

lemma js_rem_length:
  assumes "colors \<noteq> []"
  shows "js_rem (Num (real_of_int k)) (Num (real (length colors)))
           = Num (real_of_int (if 0 \<le> k then k mod int (length colors)
                               else - ((- k) mod int (length colors))))"
proof -
  have "0 < int (length colors)" using assms by simp
  from js_rem_of_int[OF this, of k] show ?thesis by simp
qed

lemma js_index_of_int:
  "0 \<le> j \<Longrightarrow> j < int (length xs) \<Longrightarrow> js_index xs (Num (real_of_int j)) = Some (xs ! nat j)"
  by simp

lemma layer_cell_nonneg:
  assumes "colors \<noteq> []" "0 \<le> k"
  shows "layer_cell colors (Num (real_of_int k))
           = \<lparr>cell_color = Some (colors ! nat (k mod int (length colors))),
              cell_level = Num (real_of_int (k mod int (length colors)))\<rparr>"
proof -
  have "0 \<le> k mod int (length colors)" "k mod int (length colors) < int (length colors)"
    using assms by simp_all
  then show ?thesis
    unfolding layer_cell_def Let_def js_rem_length[OF assms(1)] using assms(2)
    by (simp only: js_index_of_int if_True)
qed

lemma layer_cell_neg:
  assumes "colors \<noteq> []" "k < 0"
  shows "layer_cell colors (Num (real_of_int k))
           = \<lparr>cell_color = js_index colors (Num (real_of_int (- ((- k) mod int (length colors))))),
              cell_level = Num (real_of_int (- ((- k) mod int (length colors))))\<rparr>"
  unfolding layer_cell_def Let_def js_rem_length[OF assms(1)] using assms(2) by simp

lemma layer_level_thickness:
  assumes "0 < t" "0 \<le> d"
  shows "layer_level (Num d) maxDistance (Some t) numLayers = Num (real_of_int \<lfloor>(d + t / 2) / t\<rfloor>)"
    and "0 \<le> \<lfloor>(d + t / 2) / t\<rfloor>"
  using assms by (simp_all add: layer_level_def)

lemma layer_level_count:
  assumes "\<not> is_truthy layerThickness"
  shows "layer_level (Num d) (Num m) layerThickness numLayers
           = Num (real_of_int (min \<lfloor>d / (if m = 0 then 1 else m) * real_of_int numLayers\<rfloor> (numLayers - 1)))"
  using assms by (simp add: layer_level_def js_or_def of_int_min)

lemma count_level_range:
  assumes "0 \<le> d" "0 \<le> m" "1 \<le> n"
  shows "0 \<le> min \<lfloor>d / (if m = 0 then 1 else m) * real_of_int n\<rfloor> (n - 1)"
  using assms by simp

section \<open>Distances of the rectangles generator\<close>

text \<open>With positive ratios every distance of the rectangles generator is a positive finite
  number (the \<open>1e-10\<close> keeps it off zero), and the corner maximum is the distance of
  one of the four corner cells.\<close>

lemma squares_rx_pos:
  assumes "0 < ratioX"
  shows "\<exists>a>0. squares_rx (Num dx) (Num dy) (Num c) (Num s) ratioX = Num a"
proof -
  have "0 < (\<bar>dx * c + dy * s\<bar> + 1 / 10 ^ 10) / ratioX"
    using assms by (intro divide_pos_pos add_nonneg_pos) simp_all
  then show ?thesis using assms by (simp add: squares_rx_def)
qed

lemma squares_ry_pos:
  assumes "0 < ratioY"
  shows "\<exists>b>0. squares_ry (Num dx) (Num dy) (Num c) (Num s) ratioY = Num b"
proof -
  have "0 < (\<bar>- dx * s + dy * c\<bar> + 1 / 10 ^ 10) / ratioY"
    using assms by (intro divide_pos_pos add_nonneg_pos) simp_all
  then show ?thesis using assms by (simp add: squares_ry_def)
qed

lemma squares_distance_pos:
  assumes "0 < ratioX" "0 < ratioY"
  shows "\<exists>d>0. squares_distance width height ratioX ratioY tilt offsetX offsetY x y = Num d"
proof -
  let ?dx = "real x - ((real_of_int width - 1) / 2 + offsetX)"
  let ?dy = "real y - ((real_of_int height - 1) / 2 + offsetY)"
  let ?c = "cos (tilt * Math_PI_value / 180)" and ?s = "sin (tilt * Math_PI_value / 180)"
  obtain a where a: "0 < a" "squares_rx (Num ?dx) (Num ?dy) (Num ?c) (Num ?s) ratioX = Num a"
    using squares_rx_pos[OF assms(1)] by blast
  obtain b where b: "squares_ry (Num ?dx) (Num ?dy) (Num ?c) (Num ?s) ratioY = Num b"
    using squares_ry_pos[OF assms(2)] by blast
  have "squares_distance width height ratioX ratioY tilt offsetX offsetY x y = Num (max a b)"
    unfolding squares_distance_def center_Num tiltRad_Num Let_def Math_cos.simps Math_sin.simps
      Num_minus a(2) b Math_max.simps ..
  moreover have "0 < max a b" using a(1) by (simp add: less_max_iff_disj)
  ultimately show ?thesis by blast
qed

lemma max4_attained:
  fixes d1 :: real
  assumes "0 < d1"
  shows "max (max (max (max 0 d1) d2) d3) d4 \<in> {d1, d2, d3, d4}"
  using assms by (auto simp: max_def)

lemma squares_corner_step:
  assumes "0 < ratioX" "0 < ratioY"
  shows "(let dx = Num (real x) - center width offsetX;
              dy = Num (real y) - center height offsetY;
              rx = squares_rx dx dy (Math_cos (tiltRad tilt)) (Math_sin (tiltRad tilt)) ratioX;
              ry = squares_ry dx dy (Math_cos (tiltRad tilt)) (Math_sin (tiltRad tilt)) ratioY
          in Math_max (Math_max (Num m) rx) ry)
         = Math_max (Num m) (squares_distance width height ratioX ratioY tilt offsetX offsetY x y)"
proof -
  let ?dx = "real x - ((real_of_int width - 1) / 2 + offsetX)"
  let ?dy = "real y - ((real_of_int height - 1) / 2 + offsetY)"
  let ?c = "cos (tilt * Math_PI_value / 180)" and ?s = "sin (tilt * Math_PI_value / 180)"
  obtain a where a: "squares_rx (Num ?dx) (Num ?dy) (Num ?c) (Num ?s) ratioX = Num a"
    using squares_rx_pos[OF assms(1)] by blast
  obtain b where b: "squares_ry (Num ?dx) (Num ?dy) (Num ?c) (Num ?s) ratioY = Num b"
    using squares_ry_pos[OF assms(2)] by blast
  show ?thesis
    unfolding squares_distance_def center_Num tiltRad_Num Let_def Math_cos.simps Math_sin.simps
      Num_minus a b Math_max.simps
    by (simp add: max.assoc)
qed

lemma corners_cells:
  assumes "1 \<le> width" "1 \<le> height"
  shows "corners width height =
           [(Num (real 0), Num (real 0)),
            (Num (real (nat (width - 1))), Num (real 0)),
            (Num (real 0), Num (real (nat (height - 1)))),
            (Num (real (nat (width - 1))), Num (real (nat (height - 1))))]"
  using assms by (simp add: corners_def)

lemma squares_maxDistance_attained:
  assumes "0 < ratioX" "0 < ratioY" "1 \<le> width" "1 \<le> height"
  shows "\<exists>x y. (x = 0 \<or> x = nat (width - 1)) \<and> (y = 0 \<or> y = nat (height - 1)) \<and>
           squares_distance width height ratioX ratioY tilt offsetX offsetY x y
             = squares_maxDistance width height ratioX ratioY tilt offsetX offsetY"
proof -
  let ?D = "squares_distance width height ratioX ratioY tilt offsetX offsetY"
  let ?X = "nat (width - 1)" and ?Y = "nat (height - 1)"
  obtain d1 where d1: "0 < d1" "?D 0 0 = Num d1" using squares_distance_pos[OF assms(1,2)] by blast
  obtain d2 where d2: "?D ?X 0 = Num d2" using squares_distance_pos[OF assms(1,2)] by blast
  obtain d3 where d3: "?D 0 ?Y = Num d3" using squares_distance_pos[OF assms(1,2)] by blast
  obtain d4 where d4: "?D ?X ?Y = Num d4" using squares_distance_pos[OF assms(1,2)] by blast
  have "squares_maxDistance width height ratioX ratioY tilt offsetX offsetY
          = Num (max (max (max (max 0 d1) d2) d3) d4)"
    unfolding squares_maxDistance_def corners_cells[OF assms(3,4)] fold_simps fst_conv snd_conv
      o_apply id_apply squares_corner_step[OF assms(1,2)] d1(2) d2 d3 d4 Math_max.simps ..
  moreover from max4_attained[OF d1(1), of d2 d3 d4]
  have "max (max (max (max 0 d1) d2) d3) d4 = d1 \<or> max (max (max (max 0 d1) d2) d3) d4 = d2
      \<or> max (max (max (max 0 d1) d2) d3) d4 = d3 \<or> max (max (max (max 0 d1) d2) d3) d4 = d4"
    by blast
  ultimately show ?thesis using d1(2) d2 d3 d4 by metis
qed

section \<open>The value of Math.PI\<close>

text \<open>Partial sums of the arctangent series bound the arctangent from both sides, and
  Machin's formula turns them into bounds of \<open>\<pi>\<close> that are sharp enough to place the
  double \<^verbatim>\<open>Math.PI\<close>: it is below \<open>\<pi>\<close> by less than \<open>1e-15\<close>.\<close>

lemma arctan_partial_sums:
  fixes x :: real
  assumes "0 \<le> x" "x \<le> 1"
  shows "(\<Sum>i<2 * n. (- 1) ^ i * (1 / real (i * 2 + 1) * x ^ (i * 2 + 1))) \<le> arctan x"
    and "arctan x \<le> (\<Sum>i<2 * n + 1. (- 1) ^ i * (1 / real (i * 2 + 1) * x ^ (i * 2 + 1)))"
proof -
  let ?a = "\<lambda>i. 1 / real (i * 2 + 1) * x ^ (i * 2 + 1)"
  have ab: "\<bar>x\<bar> \<le> 1" using assms by simp
  have zero: "?a \<longlonglongrightarrow> 0" by (rule zeroseq_arctan_series[OF ab])
  have pos: "0 \<le> ?a i" for i using assms(1) by simp
  have mono: "?a (Suc i) \<le> ?a i" for i
  proof -
    have e: "x ^ (Suc i * 2 + 1) = x ^ (i * 2 + 1) * x\<^sup>2"
      by (simp add: power2_eq_square)
    have sq: "x\<^sup>2 \<le> 1" using assms by (simp add: power_le_one)
    have nn: "0 \<le> x ^ (i * 2 + 1)" using assms(1) by simp
    have "x ^ (i * 2 + 1) * x\<^sup>2 \<le> x ^ (i * 2 + 1) * 1"
      using sq nn by (rule mult_left_mono)
    then have p: "x ^ (Suc i * 2 + 1) \<le> x ^ (i * 2 + 1)"
      unfolding e by (simp only: mult_1_right)
    have q: "1 / real (Suc i * 2 + 1) \<le> 1 / real (i * 2 + 1)"
      by (intro divide_left_mono) simp_all
    have "0 \<le> x ^ (Suc i * 2 + 1)" using assms(1) by simp
    then show ?thesis using p q by (intro mult_mono) simp_all
  qed
  note l = summable_Leibniz'[of ?a, OF zero pos mono]
  show "(\<Sum>i<2 * n. (- 1) ^ i * ?a i) \<le> arctan x"
    unfolding arctan_series[OF ab] by (rule l(2))
  show "arctan x \<le> (\<Sum>i<2 * n + 1. (- 1) ^ i * ?a i)"
    unfolding arctan_series[OF ab] by (rule l(4))
qed

lemma arctan_fifth_lower:
  "(\<Sum>i<12. (- 1) ^ i * (1 / real (i * 2 + 1) * (1 / 5) ^ (i * 2 + 1))) \<le> arctan (1 / 5)"
  using arctan_partial_sums(1)[of "1 / 5" 6] by simp

lemma arctan_239_upper:
  "arctan (1 / 239) \<le> (\<Sum>i<3. (- 1) ^ i * (1 / real (i * 2 + 1) * (1 / 239) ^ (i * 2 + 1)))"
  using arctan_partial_sums(2)[of "1 / 239" 1] by simp

lemma Math_PI_value_less_pi: "Math_PI_value < pi"
proof -
  have "pi = 16 * arctan (1 / 5) - 4 * arctan (1 / 239)" using machin by simp
  moreover have "Math_PI_value
      < 16 * (\<Sum>i<12. (- 1) ^ i * (1 / real (i * 2 + 1) * (1 / 5) ^ (i * 2 + 1)))
        - 4 * (\<Sum>i<3. (- 1) ^ i * (1 / real (i * 2 + 1) * (1 / 239) ^ (i * 2 + 1)))"
    unfolding Math_PI_value_def by (simp add: eval_nat_numeral)
  ultimately show ?thesis using arctan_fifth_lower arctan_239_upper by linarith
qed

lemma arctan_fifth_upper:
  "arctan (1 / 5) \<le> (\<Sum>i<13. (- 1) ^ i * (1 / real (i * 2 + 1) * (1 / 5) ^ (i * 2 + 1)))"
  using arctan_partial_sums(2)[of "1 / 5" 6] by simp

lemma arctan_239_lower:
  "(\<Sum>i<4. (- 1) ^ i * (1 / real (i * 2 + 1) * (1 / 239) ^ (i * 2 + 1))) \<le> arctan (1 / 239)"
  using arctan_partial_sums(1)[of "1 / 239" 2] by simp

lemma pi_less_Math_PI_value: "pi < Math_PI_value + 1 / 10 ^ 15"
proof -
  have "pi = 16 * arctan (1 / 5) - 4 * arctan (1 / 239)" using machin by simp
  moreover have "16 * (\<Sum>i<13. (- 1) ^ i * (1 / real (i * 2 + 1) * (1 / 5) ^ (i * 2 + 1)))
        - 4 * (\<Sum>i<4. (- 1) ^ i * (1 / real (i * 2 + 1) * (1 / 239) ^ (i * 2 + 1)))
      < Math_PI_value + 1 / 10 ^ 15"
    unfolding Math_PI_value_def by (simp add: eval_nat_numeral)
  ultimately show ?thesis using arctan_fifth_upper arctan_239_lower by linarith
qed

lemma pi_gt_three: "3 < pi"
proof -
  have "3 < Math_PI_value" by (simp add: Math_PI_value_def)
  then show ?thesis using Math_PI_value_less_pi by linarith
qed

lemma Math_PI_value_pos: "0 < Math_PI_value"
  by (simp add: Math_PI_value_def)



section \<open>The polygon metric\<close>

text \<open>The folded angle lies in \<open>[0, angleStep)\<close> and \<open>angleStep\<close> is at most \<open>2\<pi>/3\<close>, so
  the cosine is taken of an angle within \<open>\<pi>/3\<close> of zero and the metric is not negative.\<close>

lemma js_rem_real:
  assumes "0 < b"
  shows "\<exists>c. js_rem (Num a) (Num b) = Num c \<and> \<bar>c\<bar> < b \<and> (0 \<le> a \<longrightarrow> 0 \<le> c)"
proof -
  have ba: "b * (a / b) = a" using assms by simp
  have nz: "b \<noteq> 0" using assms by simp
  show ?thesis
  proof (cases "0 \<le> a")
    case True
    then have q: "0 \<le> a / b" using assms by simp
    have f1: "real_of_int \<lfloor>a / b\<rfloor> \<le> a / b" and f2: "a / b < real_of_int \<lfloor>a / b\<rfloor> + 1"
      by linarith+
    have l0: "b * real_of_int \<lfloor>a / b\<rfloor> \<le> b * (a / b)"
      using assms by (intro mult_left_mono f1) simp
    have u0: "b * (a / b) < b * (real_of_int \<lfloor>a / b\<rfloor> + 1)"
      using assms by (intro mult_strict_left_mono f2)
    have u1: "b * (real_of_int \<lfloor>a / b\<rfloor> + 1) = b * real_of_int \<lfloor>a / b\<rfloor> + b"
      by (simp add: algebra_simps)
    have "0 \<le> a - b * real_of_int \<lfloor>a / b\<rfloor>" "a - b * real_of_int \<lfloor>a / b\<rfloor> < b"
      using l0 u0 u1 ba by linarith+
    then have "\<bar>a - b * real_of_int \<lfloor>a / b\<rfloor>\<bar> < b \<and> 0 \<le> a - b * real_of_int \<lfloor>a / b\<rfloor>"
      by linarith
    moreover have "js_rem (Num a) (Num b) = Num (a - b * real_of_int \<lfloor>a / b\<rfloor>)"
      using q nz by (simp add: trunc_def)
    ultimately show ?thesis by blast
  next
    case False
    then have q: "\<not> 0 \<le> a / b" using assms by (simp add: divide_less_0_iff not_le)
    have g1: "a / b \<le> real_of_int \<lceil>a / b\<rceil>" and g2: "real_of_int \<lceil>a / b\<rceil> - 1 < a / b"
      by linarith+
    have l0: "b * (a / b) \<le> b * real_of_int \<lceil>a / b\<rceil>"
      using assms by (intro mult_left_mono g1) simp
    have u0: "b * (real_of_int \<lceil>a / b\<rceil> - 1) < b * (a / b)"
      using assms by (intro mult_strict_left_mono g2)
    have u1: "b * (real_of_int \<lceil>a / b\<rceil> - 1) = b * real_of_int \<lceil>a / b\<rceil> - b"
      by (simp add: algebra_simps)
    have "\<bar>a - b * real_of_int \<lceil>a / b\<rceil>\<bar> < b"
      using l0 u0 u1 ba assms by linarith
    moreover have "js_rem (Num a) (Num b) = Num (a - b * real_of_int \<lceil>a / b\<rceil>)"
      using q nz by (simp add: trunc_def)
    ultimately show ?thesis using False by blast
  qed
qed

lemma folded_angle:
  assumes "0 < b"
  shows "\<exists>c. js_rem (js_rem (Num a) (Num b) + Num b) (Num b) = Num c \<and> 0 \<le> c \<and> c < b"
proof -
  obtain c1 where c1: "js_rem (Num a) (Num b) = Num c1" "\<bar>c1\<bar> < b"
    using js_rem_real[OF assms] by blast
  then have "0 \<le> c1 + b" by simp
  with js_rem_real[OF assms, of "c1 + b"]
  obtain c where "js_rem (Num (c1 + b)) (Num b) = Num c" "\<bar>c\<bar> < b" "0 \<le> c" by blast
  then show ?thesis using c1(1) by simp
qed

lemma polygon_metric_nonneg:
  assumes "0 < s" "s \<le> 2 * pi / 3"
  shows "\<exists>d\<ge>0. polygon_metric (Num a) (Num b) (Num s) = Num d"
proof -
  obtain c where c: "js_rem (js_rem (Num (atan2 b a)) (Num s) + Num s) (Num s) = Num c"
      "0 \<le> c" "c < s"
    using folded_angle[OF assms(1)] by blast
  have "- (pi / 2) \<le> c - s / 2" "c - s / 2 \<le> pi / 2"
    using c(2,3) assms pi_gt_zero by linarith+
  then have cos: "0 \<le> cos (c - s / 2)" by (rule cos_ge_zero)
  have r: "\<not> a * a + b * b < 0" by (simp add: not_less)
  have "polygon_metric (Num a) (Num b) (Num s) = Num (sqrt (a * a + b * b) * cos (c - s / 2))"
    unfolding polygon_metric_def Let_def Math_atan2.simps c(1)
    using r assms(1) by simp
  moreover have "0 \<le> sqrt (a * a + b * b) * cos (c - s / 2)"
    using cos by (intro mult_nonneg_nonneg) simp_all
  ultimately show ?thesis by blast
qed

lemma angleStep_Num:
  "\<exists>s. angleStep numSides = Num s \<and> 0 < s \<and> s \<le> 2 * pi / 3"
proof -
  have m: "3 \<le> max 3 (real_of_int numSides)" by simp
  then have nz: "max 3 (real_of_int numSides) \<noteq> 0" by linarith
  have "angleStep numSides = Num (2 * Math_PI_value / max 3 (real_of_int numSides))"
    by (simp add: angleStep_def sides_def Math_PI_def nz)
  moreover have "0 < 2 * Math_PI_value / max 3 (real_of_int numSides)"
    using m Math_PI_value_pos by simp
  moreover have "2 * Math_PI_value / max 3 (real_of_int numSides) \<le> 2 * Math_PI_value / 3"
    using m Math_PI_value_pos by (intro divide_left_mono) simp_all
  moreover have "2 * Math_PI_value / 3 \<le> 2 * pi / 3"
    using Math_PI_value_less_pi by simp
  ultimately show ?thesis by (metis order_trans)
qed

section \<open>Distances of the circles and polygons generators\<close>

text \<open>With ratios other than zero the distances and corner maxima of the circles and
  polygons generators are finite and not negative.\<close>

lemma fold_nonneg:
  assumes "\<And>c m. c \<in> set cs \<Longrightarrow> 0 \<le> m \<Longrightarrow> \<exists>m'\<ge>0. f c (Num m) = Num m'"
  shows "0 \<le> m \<Longrightarrow> \<exists>m'\<ge>0. fold f cs (Num (m :: real)) = Num m'"
  using assms
proof (induction cs arbitrary: m)
  case Nil
  then show ?case by simp
next
  case (Cons c cs)
  obtain m1 where m1: "0 \<le> m1" "f c (Num m) = Num m1"
    using Cons.prems(2)[of c m] Cons.prems(1) by auto
  have "\<exists>m'\<ge>0. fold f cs (Num m1) = Num m'"
    using m1(1) Cons.prems(2) by (intro Cons.IH) auto
  then show ?case using m1(2) by simp
qed

lemma corners_finite:
  "c \<in> set (corners width height) \<Longrightarrow> \<exists>a b. c = (Num a, Num b)"
  by (auto simp: corners_def)

lemma Math_sqrt_sumsq: "\<exists>d\<ge>0. Math_sqrt (Num (a * a + b * b)) = Num d"
  by (simp add: not_less)

lemma Math_max_sqrt_sumsq:
  "0 \<le> m \<Longrightarrow> \<exists>m'\<ge>0. Math_max (Num m) (Math_sqrt (Num (a * a + b * b))) = Num m'"
  by (simp add: not_less le_max_iff_disj)

lemmas Num_arith = times_jsnum.simps(1) plus_jsnum.simps(1) uminus_jsnum.simps(1) Num_minus
  Math_cos.simps(1) Math_sin.simps(1)

lemma circles_distance_nonneg:
  assumes "ratioX \<noteq> 0" "ratioY \<noteq> 0"
  shows "\<exists>d\<ge>0. circles_distance width height ratioX ratioY tilt offsetX offsetY x y = Num d"
  unfolding circles_distance_def center_Num tiltRad_Num Let_def Num_arith
    Num_divide[OF assms(1)] Num_divide[OF assms(2)]
  by (rule Math_sqrt_sumsq)

lemma circles_maxDistance_nonneg:
  assumes "ratioX \<noteq> 0" "ratioY \<noteq> 0"
  shows "\<exists>m\<ge>0. circles_maxDistance width height ratioX ratioY tilt offsetX offsetY = Num m"
  unfolding circles_maxDistance_def
proof (rule fold_nonneg)
  fix c and m :: real
  assume "c \<in> set (corners width height)" and m: "0 \<le> m"
  then obtain a b where c: "c = (Num a, Num b)" using corners_finite by blast
  show "\<exists>m'\<ge>0. (let dx = fst c - center width offsetX;
            dy = snd c - center height offsetY;
            rx = (dx * Math_cos (tiltRad tilt) + dy * Math_sin (tiltRad tilt)) / Num ratioX;
            ry = ((- dx) * Math_sin (tiltRad tilt) + dy * Math_cos (tiltRad tilt)) / Num ratioY
        in Math_max (Num m) (Math_sqrt (rx * rx + ry * ry))) = Num m'"
    unfolding c fst_conv snd_conv center_Num tiltRad_Num Let_def Num_arith
      Num_divide[OF assms(1)] Num_divide[OF assms(2)]
    by (rule Math_max_sqrt_sumsq[OF m])
qed simp

lemma polygons_distance_nonneg:
  assumes "ratioX \<noteq> 0" "ratioY \<noteq> 0"
  shows "\<exists>d\<ge>0. polygons_distance width height numSides ratioX ratioY tilt offsetX offsetY x y = Num d"
proof -
  obtain s where s: "angleStep numSides = Num s" "0 < s" "s \<le> 2 * pi / 3"
    using angleStep_Num by blast
  show ?thesis
    unfolding polygons_distance_def center_Num tiltRad_Num Let_def s(1) Num_arith
      Num_divide[OF assms(1)] Num_divide[OF assms(2)]
    by (rule polygon_metric_nonneg[OF s(2,3)])
qed

lemma Math_max_polygon_metric:
  assumes "0 < s" "s \<le> 2 * pi / 3" "0 \<le> m"
  shows "\<exists>m'\<ge>0. Math_max (Num m) (polygon_metric (Num a) (Num b) (Num s)) = Num m'"
proof -
  obtain d where "0 \<le> d" "polygon_metric (Num a) (Num b) (Num s) = Num d"
    using polygon_metric_nonneg[OF assms(1,2)] by blast
  then show ?thesis using assms(3) by (simp add: le_max_iff_disj)
qed

lemma polygons_maxDistance_nonneg:
  assumes "ratioX \<noteq> 0" "ratioY \<noteq> 0"
  shows "\<exists>m\<ge>0. polygons_maxDistance width height numSides ratioX ratioY tilt offsetX offsetY = Num m"
  unfolding polygons_maxDistance_def
proof (rule fold_nonneg)
  fix c and m :: real
  assume "c \<in> set (corners width height)" and m: "0 \<le> m"
  then obtain a b where c: "c = (Num a, Num b)" using corners_finite by blast
  obtain s where s: "angleStep numSides = Num s" "0 < s" "s \<le> 2 * pi / 3"
    using angleStep_Num by blast
  show "\<exists>m'\<ge>0. (let dx = fst c - center width offsetX;
            dy = snd c - center height offsetY;
            rx = (dx * Math_cos (tiltRad tilt) + dy * Math_sin (tiltRad tilt)) / Num ratioX;
            ry = ((- dx) * Math_sin (tiltRad tilt) + dy * Math_cos (tiltRad tilt)) / Num ratioY
        in Math_max (Num m) (polygon_metric rx ry (angleStep numSides))) = Num m'"
    unfolding c fst_conv snd_conv center_Num tiltRad_Num Let_def s(1) Num_arith
      Num_divide[OF assms(1)] Num_divide[OF assms(2)]
    by (rule Math_max_polygon_metric[OF s(2,3) m])
qed simp

section \<open>The range of the stored level\<close>

lemma level_in_Num: "level_in n \<lparr>cell_color = col, cell_level = Num r\<rparr> = (0 \<le> r \<and> r < real n)"
  by (simp add: level_in_def)

lemma layer_level_nonneg:
  assumes "0 \<le> d" "0 \<le> m" "valid_size layerThickness numLayers"
  shows "\<exists>k\<ge>0. layer_level (Num d) (Num m) layerThickness numLayers = Num (real_of_int k)"
proof (cases layerThickness)
  case None
  then have n: "1 \<le> numLayers" and f: "\<not> is_truthy layerThickness" using assms(3) by simp_all
  show ?thesis
    using layer_level_count[OF f] count_level_range[OF assms(1,2) n] by blast
next
  case (Some t)
  then have t: "0 < t" using assms(3) by simp
  show ?thesis
    using layer_level_thickness[OF t assms(1)] Some by blast
qed

lemma layer_cell_level_in:
  assumes "colors \<noteq> []" "0 \<le> d" "0 \<le> m" "valid_size layerThickness numLayers"
  shows "level_in (length colors) (layer_cell colors (layer_level (Num d) (Num m) layerThickness numLayers))"
proof -
  obtain k where k: "0 \<le> k" "layer_level (Num d) (Num m) layerThickness numLayers = Num (real_of_int k)"
    using layer_level_nonneg[OF assms(2,3,4)] by blast
  have "0 \<le> k mod int (length colors)" "k mod int (length colors) < int (length colors)"
    using assms(1) by simp_all
  then have "0 \<le> real_of_int (k mod int (length colors))"
      "real_of_int (k mod int (length colors)) < real (length colors)"
    by linarith+
  then show ?thesis
    unfolding k(2) layer_cell_nonneg[OF assms(1) k(1)] level_in_Num by simp
qed

lemma squares_cell_level_in:
  assumes "positive_dims width height" "colors \<noteq> []" "0 < ratioX" "0 < ratioY"
    "valid_size layerThickness numSquares"
  shows "level_in (length colors)
     (squares_cell width height numSquares colors ratioX ratioY layerThickness tilt offsetX offsetY x y)"
proof -
  have wh: "1 \<le> width" "1 \<le> height" using assms(1) by (simp_all add: positive_dims_def)
  obtain d where d: "0 < d" "squares_distance width height ratioX ratioY tilt offsetX offsetY x y = Num d"
    using squares_distance_pos[OF assms(3,4)] by blast
  obtain m where m: "0 < m" "squares_maxDistance width height ratioX ratioY tilt offsetX offsetY = Num m"
    using squares_maxDistance_attained[OF assms(3,4) wh, of tilt offsetX offsetY]
      squares_distance_pos[OF assms(3,4), of width height tilt offsetX offsetY] by metis
  show ?thesis
    unfolding squares_cell_def d(2) m(2)
    using d(1) m(1) by (intro layer_cell_level_in assms) simp_all
qed

lemma circles_cell_level_in:
  assumes "colors \<noteq> []" "0 < ratioX" "0 < ratioY" "valid_size layerThickness numLayers"
  shows "level_in (length colors)
     (circles_cell width height numLayers colors ratioX ratioY layerThickness tilt offsetX offsetY x y)"
proof -
  have nz: "ratioX \<noteq> 0" "ratioY \<noteq> 0" using assms by simp_all
  obtain d where d: "0 \<le> d" "circles_distance width height ratioX ratioY tilt offsetX offsetY x y = Num d"
    using circles_distance_nonneg[OF nz] by blast
  obtain m where m: "0 \<le> m" "circles_maxDistance width height ratioX ratioY tilt offsetX offsetY = Num m"
    using circles_maxDistance_nonneg[OF nz] by blast
  show ?thesis
    unfolding circles_cell_def d(2) m(2)
    using d(1) m(1) by (intro layer_cell_level_in assms)
qed

lemma polygons_cell_level_in:
  assumes "colors \<noteq> []" "0 < ratioX" "0 < ratioY" "valid_size layerThickness numLayers"
  shows "level_in (length colors)
     (polygons_cell width height numSides numLayers colors ratioX ratioY layerThickness tilt offsetX offsetY x y)"
proof -
  have nz: "ratioX \<noteq> 0" "ratioY \<noteq> 0" using assms by simp_all
  obtain d where d: "0 \<le> d"
      "polygons_distance width height numSides ratioX ratioY tilt offsetX offsetY x y = Num d"
    using polygons_distance_nonneg[OF nz] by blast
  obtain m where m: "0 \<le> m"
      "polygons_maxDistance width height numSides ratioX ratioY tilt offsetX offsetY = Num m"
    using polygons_maxDistance_nonneg[OF nz] by blast
  show ?thesis
    unfolding polygons_cell_def d(2) m(2)
    using d(1) m(1) by (intro layer_cell_level_in assms)
qed

lemma stripe_index:
  assumes "colors \<noteq> []"
  shows "js_rem (js_rem (Num (real_of_int k)) (Num (real (length colors))) + Num (real (length colors)))
           (Num (real (length colors)))
         = Num (real_of_int (k mod int (length colors)))"
proof -
  let ?n = "int (length colors)"
  let ?r = "if 0 \<le> k then k mod ?n else - ((- k) mod ?n)"
  have n: "0 < ?n" using assms by simp
  have r: "0 \<le> ?r + ?n" using n by (auto simp: add.commute intro: order_less_imp_le)
  have "js_rem (Num (real_of_int k)) (Num (real (length colors))) + Num (real (length colors))
      = Num (real_of_int (?r + ?n))"
    unfolding js_rem_length[OF assms] by simp
  also have "js_rem \<dots> (Num (real (length colors))) = Num (real_of_int ((?r + ?n) mod ?n))"
    unfolding js_rem_length[OF assms] using r by simp
  also have "(?r + ?n) mod ?n = k mod ?n"
    by (simp add: mod_minus_eq)
  finally show ?thesis .
qed

lemma stripes_cell_eq:
  assumes "colors \<noteq> []" "stripeWidth \<noteq> 0"
  shows "\<exists>k. stripes_cell width height stripeWidth colors tilt offsetX offsetY x y
           = \<lparr>cell_color = Some (colors ! nat (k mod int (length colors))),
              cell_level = Num (real_of_int (k mod int (length colors)))\<rparr>"
proof -
  have idx: "js_index colors (Num (real_of_int (k mod int (length colors))))
      = Some (colors ! nat (k mod int (length colors)))" for k
    using assms(1) by (intro js_index_of_int) simp_all
  show ?thesis
    unfolding stripes_cell_def center_Num tiltRad_Num Let_def Num_arith
      Num_divide[OF assms(2)] Math_floor.simps(1) stripe_index[OF assms(1)] idx
    by blast
qed

lemma stripes_cell_level_in:
  assumes "colors \<noteq> []" "stripeWidth \<noteq> 0"
  shows "level_in (length colors) (stripes_cell width height stripeWidth colors tilt offsetX offsetY x y)"
proof -
  obtain k where k: "stripes_cell width height stripeWidth colors tilt offsetX offsetY x y
           = \<lparr>cell_color = Some (colors ! nat (k mod int (length colors))),
              cell_level = Num (real_of_int (k mod int (length colors)))\<rparr>"
    using stripes_cell_eq[OF assms] by blast
  have "0 \<le> k mod int (length colors)" "k mod int (length colors) < int (length colors)"
    using assms(1) by simp_all
  then have "0 \<le> real_of_int (k mod int (length colors))"
      "real_of_int (k mod int (length colors)) < real (length colors)"
    by linarith+
  then show ?thesis unfolding k level_in_Num by simp
qed

lemma faceIndex_less: "faceIndex angle < 3"
  by (simp add: faceIndex_def)

lemma cubes_cell_level:
  "\<exists>f<3. cell_level (cubes_cell width height cubeSize colors offsetX offsetY x y) = Num (real f)"
  using faceIndex_less by (auto simp: cubes_cell_def Let_def split: prod.splits)

lemma cubes_cell_level_in:
  "level_in 3 (cubes_cell width height cubeSize colors offsetX offsetY x y)"
proof -
  obtain f where "f < 3"
    "cell_level (cubes_cell width height cubeSize colors offsetX offsetY x y) = Num (real f)"
    using cubes_cell_level by blast
  then show ?thesis by (simp add: level_in_def)
qed

lemma moderate_scale_pos: "moderate_scale v \<Longrightarrow> 0 < v"
proof -
  assume "moderate_scale v"
  then have "1 / 10 ^ 9 \<le> v" by (simp only: moderate_scale_def)
  moreover have "(0 :: real) < 1 / 10 ^ 9" by simp
  ultimately show ?thesis by linarith
qed

lemma moderate_size_valid: "moderate_size layerThickness numLayers \<Longrightarrow> valid_size layerThickness numLayers"
  by (cases layerThickness) (simp_all add: moderate_scale_pos)

text \<open>
  C1, as amended. For a valid configuration of moderate size (positive sizes, a non-empty
  colour list, ratios between \<open>1e-9\<close> and \<open>1e9\<close>, tilt and offsets of at most \<open>1e9\<close> in
  absolute value, a layer thickness between \<open>1e-9\<close> and \<open>1e9\<close> or else a layer count
  between 1 and \<open>1e9\<close>, at most \<open>1e9\<close> sides, a stripe width between \<open>1e-9\<close> and \<open>1e9\<close>
  in absolute value) the rectangles, circles, polygons and stripes generators return a grid
  in which every cell's stored level lies in \<open>[0, colors.length)\<close>. The isometric-cubes
  generator stores the face index, so its levels lie in \<open>[0, 3)\<close> whatever the number of
  colours.
\<close>

theorem stored_levels_in_range:
  assumes "positive_dims width height" and "colors \<noteq> []"
    and "moderate_geometry ratioX ratioY tilt offsetX offsetY"
    and "moderate_size layerThickness numLayers"
    and "\<bar>numSides\<bar> \<le> 10 ^ 9" and "moderate_scale \<bar>stripeWidth\<bar>"
  shows "(\<exists>p. generateConcentricSquares width height numLayers colors ratioX ratioY layerThickness
                 tilt offsetX offsetY = Inr p
              \<and> all_cells (level_in (length colors)) (p_grid p))
       \<and> (\<exists>p. generateConcentricCircles width height numLayers colors ratioX ratioY layerThickness
                 tilt offsetX offsetY = Inr p
              \<and> all_cells (level_in (length colors)) (p_grid p))
       \<and> (\<exists>p. generateConcentricPolygons width height numSides numLayers colors ratioX ratioY
                 layerThickness tilt offsetX offsetY = Inr p
              \<and> all_cells (level_in (length colors)) (p_grid p))
       \<and> (\<exists>p. generateStripes width height stripeWidth colors tilt offsetX offsetY = Inr p
              \<and> all_cells (level_in (length colors)) (p_grid p))
       \<and> (\<exists>p. generateIsometricCubes width height cubeSize colors offsetX offsetY = Inr p
              \<and> all_cells (level_in 3) (p_grid p))"
proof -
  note v = positive_dims_valid[OF assms(1)]
  have r: "0 < ratioX" "0 < ratioY"
    using assms(3) by (simp_all add: moderate_geometry_def moderate_scale_pos)
  note sz = moderate_size_valid[OF assms(4)]
  have sw: "stripeWidth \<noteq> 0" using moderate_scale_pos[OF assms(6)] by simp
  have "\<exists>p. generateConcentricSquares width height numLayers colors ratioX ratioY layerThickness
                 tilt offsetX offsetY = Inr p
              \<and> all_cells (level_in (length colors)) (p_grid p)"
    unfolding generateConcentricSquares_valid[OF v]
    by (simp add: all_cells_map squares_cell_level_in[OF assms(1,2) r sz])
  moreover have "\<exists>p. generateConcentricCircles width height numLayers colors ratioX ratioY layerThickness
                 tilt offsetX offsetY = Inr p
              \<and> all_cells (level_in (length colors)) (p_grid p)"
    unfolding generateConcentricCircles_valid[OF v]
    by (simp add: all_cells_map circles_cell_level_in[OF assms(2) r sz])
  moreover have "\<exists>p. generateConcentricPolygons width height numSides numLayers colors ratioX ratioY
                 layerThickness tilt offsetX offsetY = Inr p
              \<and> all_cells (level_in (length colors)) (p_grid p)"
    unfolding generateConcentricPolygons_valid[OF v]
    by (simp add: all_cells_map polygons_cell_level_in[OF assms(2) r sz])
  moreover have "\<exists>p. generateStripes width height stripeWidth colors tilt offsetX offsetY = Inr p
              \<and> all_cells (level_in (length colors)) (p_grid p)"
    unfolding generateStripes_valid[OF v]
    by (simp add: all_cells_map stripes_cell_level_in[OF assms(2) sw])
  moreover have "\<exists>p. generateIsometricCubes width height cubeSize colors offsetX offsetY = Inr p
              \<and> all_cells (level_in 3) (p_grid p)"
    unfolding generateIsometricCubes_valid[OF v]
    by (simp add: all_cells_map cubes_cell_level_in)
  ultimately show ?thesis by blast
qed

lemma new_grid_1: "new_grid 1 1 = Inr [[None]]"
  by (simp add: new_grid_def Array_fill_def)

lemma cubes_cell_one_colour:
  "cubes_cell 1 1 2 [''red''] 0 0 0 0 = \<lparr>cell_color = Some ''red'', cell_level = Num 1\<rparr>"
  by (simp add: cubes_cell_def cubes_rounded_def cube_round_def center_Num hexRadius_Num
      atan2_def js_gt_def faceIndex_def colorMap_def Math_PI_def Math_PI_value_def trunc_def
      Let_def)

theorem cubes_level_exceeds_colours:
  "generateIsometricCubes 1 1 2 [''red''] 0 0 =
     Inr \<lparr>p_grid = [[Some \<lparr>cell_color = Some ''red'', cell_level = Num 1\<rparr>]],
          p_width = 1, p_height = 1, p_colors = [''red''], p_offsetX = 0, p_offsetY = 0,
          cu_cubeSize = 2\<rparr>
   \<and> \<not> all_cells (level_in (length [''red'']))
         [[Some \<lparr>cell_color = Some ''red'', cell_level = Num 1\<rparr>]]"
  by (simp add: generateIsometricCubes_def new_grid_1 fill_grid_new[OF new_grid_1]
      cubes_cell_one_colour all_cells_def level_in_def)

theorem stored_levels_in_range_witness:
  "positive_dims 2 1 \<and> [''red'', ''blue''] \<noteq> [] \<and> moderate_geometry 1 1 0 0 0
     \<and> moderate_size None 2 \<and> \<bar>5 :: int\<bar> \<le> 10 ^ 9 \<and> moderate_scale \<bar>1\<bar>
   \<and> (\<exists>p. generateConcentricSquares 2 1 2 [''red'', ''blue''] 1 1 None 0 0 0 = Inr p
              \<and> all_cells (level_in (length [''red'', ''blue''])) (p_grid p))
   \<and> (\<exists>p. generateConcentricCircles 2 1 2 [''red'', ''blue''] 1 1 None 0 0 0 = Inr p
              \<and> all_cells (level_in (length [''red'', ''blue''])) (p_grid p))
   \<and> (\<exists>p. generateConcentricPolygons 2 1 5 2 [''red'', ''blue''] 1 1 None 0 0 0 = Inr p
              \<and> all_cells (level_in (length [''red'', ''blue''])) (p_grid p))
   \<and> (\<exists>p. generateStripes 2 1 1 [''red'', ''blue''] 0 0 0 = Inr p
              \<and> all_cells (level_in (length [''red'', ''blue''])) (p_grid p))
   \<and> (\<exists>p. generateIsometricCubes 2 1 2 [''red'', ''blue''] 0 0 = Inr p
              \<and> all_cells (level_in 3) (p_grid p))"
proof -
  have h: "positive_dims 2 1" "[''red'', ''blue''] \<noteq> []" "moderate_geometry 1 1 0 0 0"
      "moderate_size None 2" "\<bar>5 :: int\<bar> \<le> 10 ^ 9" "moderate_scale \<bar>1\<bar>"
    by (simp_all add: positive_dims_def moderate_geometry_def moderate_scale_def moderate_def)
  from stored_levels_in_range[OF h, of 2] h show ?thesis
    by blast
qed

section \<open>A layer count that is not positive\<close>

lemma wrapped_cell_neg:
  assumes "colors \<noteq> []" "k < 0"
  shows "layer_cell colors (Num (real_of_int k)) = wrapped_cell colors k"
proof -
  let ?j = "(- k) mod int (length colors)"
  have j: "0 \<le> ?j" "?j < int (length colors)" using assms(1) by simp_all
  have idx: "js_index colors (Num (real_of_int (- ?j)))
      = (if ?j = 0 then Some (colors ! 0) else None)"
  proof (cases "?j = 0")
    case True
    then show ?thesis using assms(1) by simp
  next
    case False
    then have "real_of_int (- ?j) < 0" using j(1) by linarith
    then have "\<not> 0 \<le> real_of_int (- ?j)" by linarith
    then show ?thesis using False by (simp only: js_index.simps simp_thms if_False)
  qed
  show ?thesis
    unfolding layer_cell_neg[OF assms] wrapped_cell_def idx by simp
qed

lemma count_cell_wrapped:
  assumes "colors \<noteq> []" "\<not> is_truthy layerThickness" "numLayers \<le> 0"
  shows "\<exists>k\<le>numLayers - 1.
           Math_min (Math_floor ((Num d / js_or (Num m) (Num 1)) * Num (of_int numLayers)))
               (Num (of_int numLayers) - Num 1) = Num (of_int k)
           \<and> layer_cell colors (layer_level (Num d) (Num m) layerThickness numLayers)
               = wrapped_cell colors k"
proof -
  define k where "k = min \<lfloor>d / (if m = 0 then 1 else m) * real_of_int numLayers\<rfloor> (numLayers - 1)"
  have le: "k \<le> numLayers - 1" unfolding k_def by simp
  then have neg: "k < 0" using assms(3) by simp
  have lv: "layer_level (Num d) (Num m) layerThickness numLayers = Num (real_of_int k)"
    unfolding k_def by (rule layer_level_count[OF assms(2)])
  have "layer_level (Num d) (Num m) layerThickness numLayers
      = Math_min (Math_floor ((Num d / js_or (Num m) (Num 1)) * Num (of_int numLayers)))
               (Num (of_int numLayers) - Num 1)"
    using assms(2) by (simp only: layer_level_def if_False)
  then have ix: "Math_min (Math_floor ((Num d / js_or (Num m) (Num 1)) * Num (of_int numLayers)))
               (Num (of_int numLayers) - Num 1) = Num (of_int k)"
    using lv by simp
  show ?thesis
    using le ix wrapped_cell_neg[OF assms(1) neg] unfolding lv by blast
qed

lemma actual_layers_count:
  "\<not> is_truthy layerThickness \<Longrightarrow>
   actual_layers maxDistance layerThickness numLayers = Num (real_of_int numLayers)"
  by (simp add: actual_layers_def)

lemma squares_finite:
  assumes "positive_dims width height" "0 < ratioX" "0 < ratioY"
  shows "\<exists>d m. squares_distance width height ratioX ratioY tilt offsetX offsetY x y = Num d
           \<and> squares_maxDistance width height ratioX ratioY tilt offsetX offsetY = Num m
           \<and> 0 < d \<and> 0 < m"
proof -
  have wh: "1 \<le> width" "1 \<le> height" using assms(1) by (simp_all add: positive_dims_def)
  show ?thesis
    using squares_maxDistance_attained[OF assms(2,3) wh, of tilt offsetX offsetY]
      squares_distance_pos[OF assms(2,3), of width height tilt offsetX offsetY] by metis
qed

text \<open>
  C3, as amended. In count mode a layer count that is zero or negative is not clamped
  to one layer and raises no error: for positive sizes, a non-empty colour list and
  arguments of moderate size, the rectangles, circles and polygons generators return the
  layer count they were given; in every cell the layer index
  \<open>min(floor(distance / (maxDistance || 1) * layerCount), layerCount - 1)\<close> is an integer of
  at most \<open>layerCount - 1\<close>, so below zero, the stored level is its sign-keeping remainder
  \<open>-((-index) mod colors.length)\<close>, a number in \<open>(-colors.length, 0]\<close>, and the colour is
  \<^verbatim>\<open>undefined\<close> unless that remainder is \<open>0\<close>.
\<close>

theorem nonpositive_layer_count_not_clamped:
  assumes "positive_dims width height" and "colors \<noteq> []"
    and "moderate_geometry ratioX ratioY tilt offsetX offsetY"
    and "\<not> is_truthy layerThickness" and "numLayers \<le> 0" and "- (10 ^ 9) \<le> numLayers"
    and "\<bar>numSides\<bar> \<le> 10 ^ 9"
  shows "(\<exists>p. generateConcentricSquares width height numLayers colors ratioX ratioY layerThickness
              tilt offsetX offsetY = Inr p
          \<and> sq_numSquares p = Num (real_of_int numLayers)
          \<and> (\<forall>x y. x < nat width \<and> y < nat height \<longrightarrow>
                (\<exists>k\<le>numLayers - 1.
                   Math_min (Math_floor
                       ((squares_distance width height ratioX ratioY tilt offsetX offsetY x y
                          / js_or (squares_maxDistance width height ratioX ratioY tilt offsetX offsetY)
                              (Num 1))
                        * Num (of_int numLayers)))
                     (Num (of_int numLayers) - Num 1) = Num (of_int k)
                   \<and> p_grid p ! y ! x = Some (wrapped_cell colors k))))
       \<and> (\<exists>p. generateConcentricCircles width height numLayers colors ratioX ratioY layerThickness
                  tilt offsetX offsetY = Inr p
              \<and> ci_numLayers p = Num (real_of_int numLayers)
              \<and> (\<forall>x y. x < nat width \<and> y < nat height \<longrightarrow>
                    (\<exists>k\<le>numLayers - 1.
                       Math_min (Math_floor
                           ((circles_distance width height ratioX ratioY tilt offsetX offsetY x y
                              / js_or (circles_maxDistance width height ratioX ratioY tilt offsetX offsetY)
                                  (Num 1))
                            * Num (of_int numLayers)))
                         (Num (of_int numLayers) - Num 1) = Num (of_int k)
                       \<and> p_grid p ! y ! x = Some (wrapped_cell colors k))))
       \<and> (\<exists>p. generateConcentricPolygons width height numSides numLayers colors ratioX ratioY layerThickness
                  tilt offsetX offsetY = Inr p
              \<and> po_numLayers p = Num (real_of_int numLayers)
              \<and> (\<forall>x y. x < nat width \<and> y < nat height \<longrightarrow>
                    (\<exists>k\<le>numLayers - 1.
                       Math_min (Math_floor
                           ((polygons_distance width height numSides ratioX ratioY tilt offsetX offsetY x y
                              / js_or (polygons_maxDistance width height numSides ratioX ratioY tilt offsetX offsetY)
                                  (Num 1))
                            * Num (of_int numLayers)))
                         (Num (of_int numLayers) - Num 1) = Num (of_int k)
                       \<and> p_grid p ! y ! x = Some (wrapped_cell colors k))))"
proof -
  note v = positive_dims_valid[OF assms(1)]
  have r: "0 < ratioX" "0 < ratioY"
    using assms(3) by (simp_all add: moderate_geometry_def moderate_scale_pos)
  have nz: "ratioX \<noteq> 0" "ratioY \<noteq> 0" using r by simp_all
  have sq: "\<exists>k\<le>numLayers - 1.
             Math_min (Math_floor
                 ((squares_distance width height ratioX ratioY tilt offsetX offsetY x y
                    / js_or (squares_maxDistance width height ratioX ratioY tilt offsetX offsetY)
                        (Num 1))
                  * Num (of_int numLayers)))
               (Num (of_int numLayers) - Num 1) = Num (of_int k)
             \<and> squares_cell width height numLayers colors ratioX ratioY layerThickness tilt
                   offsetX offsetY x y = wrapped_cell colors k" for x y
  proof -
    obtain d m where "squares_distance width height ratioX ratioY tilt offsetX offsetY x y = Num d"
        "squares_maxDistance width height ratioX ratioY tilt offsetX offsetY = Num m"
      using squares_finite[OF assms(1) r] by blast
    then show ?thesis
      unfolding squares_cell_def by (simp only: count_cell_wrapped[OF assms(2,4,5)])
  qed
  have ci: "\<exists>k\<le>numLayers - 1.
             Math_min (Math_floor
                 ((circles_distance width height ratioX ratioY tilt offsetX offsetY x y
                    / js_or (circles_maxDistance width height ratioX ratioY tilt offsetX offsetY)
                        (Num 1))
                  * Num (of_int numLayers)))
               (Num (of_int numLayers) - Num 1) = Num (of_int k)
             \<and> circles_cell width height numLayers colors ratioX ratioY layerThickness tilt
                   offsetX offsetY x y = wrapped_cell colors k" for x y
  proof -
    obtain d m where "circles_distance width height ratioX ratioY tilt offsetX offsetY x y = Num d"
        "circles_maxDistance width height ratioX ratioY tilt offsetX offsetY = Num m"
      using circles_distance_nonneg[OF nz] circles_maxDistance_nonneg[OF nz] by blast
    then show ?thesis
      unfolding circles_cell_def by (simp only: count_cell_wrapped[OF assms(2,4,5)])
  qed
  have po: "\<exists>k\<le>numLayers - 1.
             Math_min (Math_floor
                 ((polygons_distance width height numSides ratioX ratioY tilt offsetX offsetY x y
                    / js_or (polygons_maxDistance width height numSides ratioX ratioY tilt offsetX offsetY)
                        (Num 1))
                  * Num (of_int numLayers)))
               (Num (of_int numLayers) - Num 1) = Num (of_int k)
             \<and> polygons_cell width height numSides numLayers colors ratioX ratioY layerThickness
                   tilt offsetX offsetY x y = wrapped_cell colors k" for x y
  proof -
    obtain d m where
        "polygons_distance width height numSides ratioX ratioY tilt offsetX offsetY x y = Num d"
        "polygons_maxDistance width height numSides ratioX ratioY tilt offsetX offsetY = Num m"
      using polygons_distance_nonneg[OF nz] polygons_maxDistance_nonneg[OF nz] by blast
    then show ?thesis
      unfolding polygons_cell_def by (simp only: count_cell_wrapped[OF assms(2,4,5)])
  qed
  have "\<exists>p. generateConcentricSquares width height numLayers colors ratioX ratioY layerThickness
              tilt offsetX offsetY = Inr p
          \<and> sq_numSquares p = Num (real_of_int numLayers)
          \<and> (\<forall>x y. x < nat width \<and> y < nat height \<longrightarrow>
                (\<exists>k\<le>numLayers - 1.
                   Math_min (Math_floor
                       ((squares_distance width height ratioX ratioY tilt offsetX offsetY x y
                          / js_or (squares_maxDistance width height ratioX ratioY tilt offsetX offsetY)
                              (Num 1))
                        * Num (of_int numLayers)))
                     (Num (of_int numLayers) - Num 1) = Num (of_int k)
                   \<and> p_grid p ! y ! x = Some (wrapped_cell colors k)))"
    unfolding generateConcentricSquares_valid[OF v]
    using sq by (simp add: grid_nth actual_layers_count[OF assms(4)])
  moreover have "\<exists>p. generateConcentricCircles width height numLayers colors ratioX ratioY layerThickness
              tilt offsetX offsetY = Inr p
          \<and> ci_numLayers p = Num (real_of_int numLayers)
          \<and> (\<forall>x y. x < nat width \<and> y < nat height \<longrightarrow>
                (\<exists>k\<le>numLayers - 1.
                   Math_min (Math_floor
                       ((circles_distance width height ratioX ratioY tilt offsetX offsetY x y
                          / js_or (circles_maxDistance width height ratioX ratioY tilt offsetX offsetY)
                              (Num 1))
                        * Num (of_int numLayers)))
                     (Num (of_int numLayers) - Num 1) = Num (of_int k)
                   \<and> p_grid p ! y ! x = Some (wrapped_cell colors k)))"
    unfolding generateConcentricCircles_valid[OF v]
    using ci by (simp add: grid_nth actual_layers_count[OF assms(4)])
  moreover have "\<exists>p. generateConcentricPolygons width height numSides numLayers colors ratioX ratioY layerThickness
              tilt offsetX offsetY = Inr p
          \<and> po_numLayers p = Num (real_of_int numLayers)
          \<and> (\<forall>x y. x < nat width \<and> y < nat height \<longrightarrow>
                (\<exists>k\<le>numLayers - 1.
                   Math_min (Math_floor
                       ((polygons_distance width height numSides ratioX ratioY tilt offsetX offsetY x y
                          / js_or (polygons_maxDistance width height numSides ratioX ratioY tilt offsetX offsetY)
                              (Num 1))
                        * Num (of_int numLayers)))
                     (Num (of_int numLayers) - Num 1) = Num (of_int k)
                   \<and> p_grid p ! y ! x = Some (wrapped_cell colors k)))"
    unfolding generateConcentricPolygons_valid[OF v]
    using po by (simp add: grid_nth actual_layers_count[OF assms(4)])
  ultimately show ?thesis by blast
qed

lemma squares_1x1_maxDistance: "squares_maxDistance 1 1 1 1 0 0 0 = Num (1 / 10 ^ 10)"
  by (simp add: squares_maxDistance_def corners_def center_def tiltRad_def Math_PI_def
      squares_rx_def squares_ry_def Let_def)

lemma squares_1x1_distance: "squares_distance 1 1 1 1 0 0 0 0 0 = Num (1 / 10 ^ 10)"
  by (simp add: squares_distance_def center_def tiltRad_def Math_PI_def
      squares_rx_def squares_ry_def Let_def)

lemma ceiling_minus_half: "\<lceil>- (1 / 2 :: real)\<rceil> = 0"
  by (rule ceiling_unique) simp_all

lemma squares_cell_zero_layers:
  "squares_cell 1 1 0 [''red'', ''blue''] 1 1 None 0 0 0 0 0 = \<lparr>cell_color = None, cell_level = Num (- 1)\<rparr>"
  by (simp add: squares_cell_def squares_1x1_maxDistance squares_1x1_distance layer_level_def
      layer_cell_def js_or_def trunc_def ceiling_minus_half)

theorem zero_layer_count_not_clamped:
  "generateConcentricSquares 1 1 0 [''red'', ''blue''] 1 1 None 0 0 0 =
     Inr \<lparr>p_grid = [[Some \<lparr>cell_color = None, cell_level = Num (- 1)\<rparr>]],
          p_width = 1, p_height = 1, p_colors = [''red'', ''blue''],
          p_offsetX = 0, p_offsetY = 0,
          sq_numSquares = Num 0, sq_ratioX = 1, sq_ratioY = 1, sq_layerThickness = None,
          sq_tilt = 0\<rparr>"
  by (simp add: generateConcentricSquares_def new_grid_1 fill_grid_new[OF new_grid_1]
      squares_cell_zero_layers actual_layers_def)

theorem nonpositive_layer_count_witness:
  "positive_dims 1 1 \<and> [''red'', ''blue''] \<noteq> [] \<and> moderate_geometry 1 1 0 0 0
     \<and> \<not> is_truthy None \<and> (0 :: int) \<le> 0 \<and> - (10 ^ 9) \<le> (0 :: int) \<and> \<bar>5 :: int\<bar> \<le> 10 ^ 9
   \<and> (\<exists>p. generateConcentricSquares 1 1 0 [''red'', ''blue''] 1 1 None 0 0 0 = Inr p
          \<and> sq_numSquares p = Num (real_of_int 0)
          \<and> (\<exists>k\<le>0 - 1.
                Math_min (Math_floor
                    ((squares_distance 1 1 1 1 0 0 0 0 0
                       / js_or (squares_maxDistance 1 1 1 1 0 0 0) (Num 1))
                     * Num (of_int 0)))
                  (Num (of_int 0) - Num 1) = Num (of_int k)
                \<and> p_grid p ! 0 ! 0 = Some (wrapped_cell [''red'', ''blue''] k)))
   \<and> (\<exists>p. generateConcentricCircles 1 1 0 [''red'', ''blue''] 1 1 None 0 0 0 = Inr p
          \<and> ci_numLayers p = Num (real_of_int 0)
          \<and> (\<exists>k\<le>0 - 1.
                Math_min (Math_floor
                    ((circles_distance 1 1 1 1 0 0 0 0 0
                       / js_or (circles_maxDistance 1 1 1 1 0 0 0) (Num 1))
                     * Num (of_int 0)))
                  (Num (of_int 0) - Num 1) = Num (of_int k)
                \<and> p_grid p ! 0 ! 0 = Some (wrapped_cell [''red'', ''blue''] k)))
   \<and> (\<exists>p. generateConcentricPolygons 1 1 5 0 [''red'', ''blue''] 1 1 None 0 0 0 = Inr p
          \<and> po_numLayers p = Num (real_of_int 0)
          \<and> (\<exists>k\<le>0 - 1.
                Math_min (Math_floor
                    ((polygons_distance 1 1 5 1 1 0 0 0 0 0
                       / js_or (polygons_maxDistance 1 1 5 1 1 0 0 0) (Num 1))
                     * Num (of_int 0)))
                  (Num (of_int 0) - Num 1) = Num (of_int k)
                \<and> p_grid p ! 0 ! 0 = Some (wrapped_cell [''red'', ''blue''] k)))"
proof -
  have h: "positive_dims 1 1" "[''red'', ''blue''] \<noteq> []" "moderate_geometry 1 1 0 0 0"
      "\<not> is_truthy None" "(0 :: int) \<le> 0" "- (10 ^ 9) \<le> (0 :: int)" "\<bar>5 :: int\<bar> \<le> 10 ^ 9"
    by (simp_all add: positive_dims_def moderate_geometry_def moderate_scale_def moderate_def)
  note t = nonpositive_layer_count_not_clamped[OF h]
  have lt: "(0 :: nat) < nat 1" by simp
  from t have sq: "(\<exists>p. generateConcentricSquares 1 1 0 [''red'', ''blue''] 1 1 None 0 0 0 = Inr p
          \<and> sq_numSquares p = Num (real_of_int 0)
          \<and> (\<exists>k\<le>0 - 1.
                Math_min (Math_floor
                    ((squares_distance 1 1 1 1 0 0 0 0 0
                       / js_or (squares_maxDistance 1 1 1 1 0 0 0) (Num 1))
                     * Num (of_int 0)))
                  (Num (of_int 0) - Num 1) = Num (of_int k)
                \<and> p_grid p ! 0 ! 0 = Some (wrapped_cell [''red'', ''blue''] k)))"
    using lt by blast
  from t have ci: "(\<exists>p. generateConcentricCircles 1 1 0 [''red'', ''blue''] 1 1 None 0 0 0 = Inr p
          \<and> ci_numLayers p = Num (real_of_int 0)
          \<and> (\<exists>k\<le>0 - 1.
                Math_min (Math_floor
                    ((circles_distance 1 1 1 1 0 0 0 0 0
                       / js_or (circles_maxDistance 1 1 1 1 0 0 0) (Num 1))
                     * Num (of_int 0)))
                  (Num (of_int 0) - Num 1) = Num (of_int k)
                \<and> p_grid p ! 0 ! 0 = Some (wrapped_cell [''red'', ''blue''] k)))"
    using lt by blast
  from t have po: "(\<exists>p. generateConcentricPolygons 1 1 5 0 [''red'', ''blue''] 1 1 None 0 0 0 = Inr p
          \<and> po_numLayers p = Num (real_of_int 0)
          \<and> (\<exists>k\<le>0 - 1.
                Math_min (Math_floor
                    ((polygons_distance 1 1 5 1 1 0 0 0 0 0
                       / js_or (polygons_maxDistance 1 1 5 1 1 0 0 0) (Num 1))
                     * Num (of_int 0)))
                  (Num (of_int 0) - Num 1) = Num (of_int k)
                \<and> p_grid p ! 0 ! 0 = Some (wrapped_cell [''red'', ''blue''] k)))"
    using lt by blast
  from h sq ci po show ?thesis by (intro conjI)
qed

section \<open>Failure and validation\<close>

lemma valid_dims_shape:
  "valid_dims width height \<Longrightarrow>
   has_shape (map (\<lambda>y. map (\<lambda>x. Some (c x y)) [0..<nat width]) [0..<nat height]) width height
   \<and> all_cells (\<lambda>c. True) (map (\<lambda>y. map (\<lambda>x. Some (c x y)) [0..<nat width]) [0..<nat height])"
  by (auto simp: valid_dims_def has_shape_def all_cells_def list_all_iff)

text \<open>
  C2, as amended. No generator validates the colours or the ratios: an empty colour list
  and a ratio that is zero or negative are accepted like any other value. The one failure
  is the RangeError that allocating the grid throws, before any cell is computed, when
  \<open>height\<close> is negative or too large for an array, or \<open>width\<close> is and \<open>height\<close> is not
  zero. In every other case the generator returns a grid of \<open>height\<close> rows of \<open>width\<close>
  cells with no entry left unset, so a partial grid is never returned.
\<close>

theorem generation_succeeds_or_range_error:
  "(if valid_dims width height
    then \<exists>p. generateConcentricSquares width height numLayers colors ratioX ratioY layerThickness
                 tilt offsetX offsetY = Inr p
              \<and> has_shape (p_grid p) width height \<and> all_cells (\<lambda>c. True) (p_grid p)
    else generateConcentricSquares width height numLayers colors ratioX ratioY layerThickness
           tilt offsetX offsetY = Inl RangeError)
   \<and> (if valid_dims width height
    then \<exists>p. generateConcentricCircles width height numLayers colors ratioX ratioY layerThickness
                 tilt offsetX offsetY = Inr p
              \<and> has_shape (p_grid p) width height \<and> all_cells (\<lambda>c. True) (p_grid p)
    else generateConcentricCircles width height numLayers colors ratioX ratioY layerThickness
           tilt offsetX offsetY = Inl RangeError)
   \<and> (if valid_dims width height
    then \<exists>p. generateConcentricPolygons width height numSides numLayers colors ratioX ratioY
                 layerThickness tilt offsetX offsetY = Inr p
              \<and> has_shape (p_grid p) width height \<and> all_cells (\<lambda>c. True) (p_grid p)
    else generateConcentricPolygons width height numSides numLayers colors ratioX ratioY
           layerThickness tilt offsetX offsetY = Inl RangeError)
   \<and> (if valid_dims width height
    then \<exists>p. generateStripes width height stripeWidth colors tilt offsetX offsetY = Inr p
              \<and> has_shape (p_grid p) width height \<and> all_cells (\<lambda>c. True) (p_grid p)
    else generateStripes width height stripeWidth colors tilt offsetX offsetY = Inl RangeError)
   \<and> (if valid_dims width height
    then \<exists>p. generateIsometricCubes width height cubeSize colors offsetX offsetY = Inr p
              \<and> has_shape (p_grid p) width height \<and> all_cells (\<lambda>c. True) (p_grid p)
    else generateIsometricCubes width height cubeSize colors offsetX offsetY = Inl RangeError)"
proof (cases "valid_dims width height")
  case True
  show ?thesis
    unfolding generateConcentricSquares_valid[OF True] generateConcentricCircles_valid[OF True]
      generateConcentricPolygons_valid[OF True] generateStripes_valid[OF True]
      generateIsometricCubes_valid[OF True]
    using True by (simp add: valid_dims_shape)
next
  case False
  then show ?thesis
    by (simp add: generateConcentricSquares_def generateConcentricCircles_def
        generateConcentricPolygons_def generateStripes_def generateIsometricCubes_def
        new_grid_invalid)
qed

lemma squares_cell_no_colours:
  "squares_cell 1 1 1 [] 1 1 None 0 0 0 0 0 = \<lparr>cell_color = None, cell_level = NaN\<rparr>"
  by (simp add: squares_cell_def squares_1x1_maxDistance squares_1x1_distance layer_level_def
      layer_cell_def js_or_def)

lemma squares_cell_zero_ratio:
  "squares_cell 1 1 1 [''red''] 0 1 None 0 0 0 0 0 = \<lparr>cell_color = None, cell_level = NaN\<rparr>"
  by (simp add: squares_cell_def squares_maxDistance_def squares_distance_def corners_def
      center_def tiltRad_def Math_PI_def squares_rx_def squares_ry_def Let_def inf_sign_def
      layer_level_def layer_cell_def js_or_def)

lemma squares_cell_negative_ratio:
  "squares_cell 1 1 1 [''red''] 1 (- 1) None 0 0 0 0 0 = \<lparr>cell_color = Some ''red'', cell_level = Num 0\<rparr>"
  by (simp add: squares_cell_def squares_maxDistance_def squares_distance_def corners_def
      center_def tiltRad_def Math_PI_def squares_rx_def squares_ry_def Let_def
      layer_level_def layer_cell_def js_or_def trunc_def)

theorem invalid_configuration_not_rejected:
  "generateConcentricSquares 1 1 1 [] 1 1 None 0 0 0 =
     Inr \<lparr>p_grid = [[Some \<lparr>cell_color = None, cell_level = NaN\<rparr>]],
          p_width = 1, p_height = 1, p_colors = [], p_offsetX = 0, p_offsetY = 0,
          sq_numSquares = Num 1, sq_ratioX = 1, sq_ratioY = 1, sq_layerThickness = None,
          sq_tilt = 0\<rparr>
   \<and> generateConcentricSquares 1 1 1 [''red''] 0 1 None 0 0 0 =
     Inr \<lparr>p_grid = [[Some \<lparr>cell_color = None, cell_level = NaN\<rparr>]],
          p_width = 1, p_height = 1, p_colors = [''red''], p_offsetX = 0, p_offsetY = 0,
          sq_numSquares = Num 1, sq_ratioX = 0, sq_ratioY = 1, sq_layerThickness = None,
          sq_tilt = 0\<rparr>
   \<and> generateConcentricSquares 1 1 1 [''red''] 1 (- 1) None 0 0 0 =
     Inr \<lparr>p_grid = [[Some \<lparr>cell_color = Some ''red'', cell_level = Num 0\<rparr>]],
          p_width = 1, p_height = 1, p_colors = [''red''], p_offsetX = 0, p_offsetY = 0,
          sq_numSquares = Num 1, sq_ratioX = 1, sq_ratioY = - 1, sq_layerThickness = None,
          sq_tilt = 0\<rparr>"
  by (simp add: generateConcentricSquares_def new_grid_1 fill_grid_new[OF new_grid_1]
      squares_cell_no_colours squares_cell_zero_ratio squares_cell_negative_ratio actual_layers_def)

theorem generation_witness:
  "valid_dims 1 1 \<and> \<not> valid_dims 1 (- 1)
   \<and> (\<exists>p. generateConcentricSquares 1 1 1 [] 0 (- 1) None 0 0 0 = Inr p
          \<and> has_shape (p_grid p) 1 1 \<and> all_cells (\<lambda>c. True) (p_grid p))
   \<and> generateStripes 1 (- 1) 1 [''red''] 0 0 0 = Inl RangeError"
  using generation_succeeds_or_range_error[of 1 1 1 "[]" 0 "- 1" None 0 0 0]
    generation_succeeds_or_range_error[of 1 "- 1" _ "[''red'']" _ _ _ 0 0 0 _ 1]
  by (simp add: valid_dims_def)

section \<open>Thickness mode and count mode\<close>

lemma is_truthy_iff: "is_truthy layerThickness \<longleftrightarrow> (\<exists>t. layerThickness = Some t \<and> t \<noteq> 0)"
  by (cases layerThickness) simp_all

lemma layer_level_zero_thickness:
  "layer_level distance maxDistance (Some 0) numLayers = layer_level distance maxDistance None numLayers"
  by (simp add: layer_level_def)

lemma actual_layers_zero_thickness:
  "actual_layers maxDistance (Some 0) numLayers = actual_layers maxDistance None numLayers"
  by (simp add: actual_layers_def)

lemma squares_cell_zero_thickness:
  "squares_cell width height numLayers colors ratioX ratioY (Some 0) tilt offsetX offsetY
     = squares_cell width height numLayers colors ratioX ratioY None tilt offsetX offsetY"
  by (intro ext) (simp add: squares_cell_def layer_level_zero_thickness)

lemma circles_cell_zero_thickness:
  "circles_cell width height numLayers colors ratioX ratioY (Some 0) tilt offsetX offsetY
     = circles_cell width height numLayers colors ratioX ratioY None tilt offsetX offsetY"
  by (intro ext) (simp add: circles_cell_def layer_level_zero_thickness)

lemma polygons_cell_zero_thickness:
  "polygons_cell width height numSides numLayers colors ratioX ratioY (Some 0) tilt offsetX offsetY
     = polygons_cell width height numSides numLayers colors ratioX ratioY None tilt offsetX offsetY"
  by (intro ext) (simp add: polygons_cell_def layer_level_zero_thickness)

lemma layer_level_modes:
  "layer_level distance maxDistance layerThickness numLayers =
     (if is_truthy layerThickness
      then Math_floor ((distance + to_number layerThickness / Num 2) / to_number layerThickness)
      else Math_min (Math_floor ((distance / js_or maxDistance (Num 1)) * Num (real_of_int numLayers)))
             (Num (real_of_int numLayers) - Num 1))"
  by (simp add: layer_level_def)

lemma truthy_divisor: "is_truthy layerThickness \<Longrightarrow> to_number layerThickness \<noteq> Num 0"
  by (cases layerThickness) simp_all

text \<open>
  C10. In the rectangles, circles and polygons generators thickness mode is taken exactly
  when \<open>layerThickness\<close> is truthy, that is a number other than zero. In that mode the
  divisor \<open>layerThickness\<close> is not zero and the level of a stitch is
  \<open>floor((distance + layerThickness / 2) / layerThickness)\<close>; otherwise (\<^verbatim>\<open>null\<close> or \<open>0\<close>)
  it is the count-mode level \<open>min(floor(distance / (maxDistance || 1) * layerCount),
  layerCount - 1)\<close>, normalised by the corner maximum, and no division by
  \<open>layerThickness\<close> takes place. Passing \<open>0\<close> gives the same object as passing \<^verbatim>\<open>null\<close>,
  but for the echoed \<open>layerThickness\<close> field.
\<close>

theorem thickness_mode_iff_truthy:
  "(is_truthy layerThickness \<longleftrightarrow> (\<exists>t. layerThickness = Some t \<and> t \<noteq> 0))
   \<and> (if is_truthy layerThickness
       then to_number layerThickness \<noteq> Num 0
          \<and> squares_cell width height numLayers colors ratioX ratioY layerThickness tilt
                offsetX offsetY x y
              = layer_cell colors (Math_floor
                  ((squares_distance width height ratioX ratioY tilt offsetX offsetY x y
                      + to_number layerThickness / Num 2) / to_number layerThickness))
          \<and> circles_cell width height numLayers colors ratioX ratioY layerThickness tilt
                offsetX offsetY x y
              = layer_cell colors (Math_floor
                  ((circles_distance width height ratioX ratioY tilt offsetX offsetY x y
                      + to_number layerThickness / Num 2) / to_number layerThickness))
          \<and> polygons_cell width height numSides numLayers colors ratioX ratioY layerThickness tilt
                offsetX offsetY x y
              = layer_cell colors (Math_floor
                  ((polygons_distance width height numSides ratioX ratioY tilt offsetX offsetY x y
                      + to_number layerThickness / Num 2) / to_number layerThickness))
       else squares_cell width height numLayers colors ratioX ratioY layerThickness tilt
                offsetX offsetY x y
              = layer_cell colors (Math_min (Math_floor
                  ((squares_distance width height ratioX ratioY tilt offsetX offsetY x y
                      / js_or (squares_maxDistance width height ratioX ratioY tilt offsetX offsetY)
                          (Num 1)) * Num (real_of_int numLayers)))
                  (Num (real_of_int numLayers) - Num 1))
          \<and> circles_cell width height numLayers colors ratioX ratioY layerThickness tilt
                offsetX offsetY x y
              = layer_cell colors (Math_min (Math_floor
                  ((circles_distance width height ratioX ratioY tilt offsetX offsetY x y
                      / js_or (circles_maxDistance width height ratioX ratioY tilt offsetX offsetY)
                          (Num 1)) * Num (real_of_int numLayers)))
                  (Num (real_of_int numLayers) - Num 1))
          \<and> polygons_cell width height numSides numLayers colors ratioX ratioY layerThickness tilt
                offsetX offsetY x y
              = layer_cell colors (Math_min (Math_floor
                  ((polygons_distance width height numSides ratioX ratioY tilt offsetX offsetY x y
                      / js_or (polygons_maxDistance width height numSides ratioX ratioY tilt
                                 offsetX offsetY) (Num 1)) * Num (real_of_int numLayers)))
                  (Num (real_of_int numLayers) - Num 1)))
   \<and> generateConcentricSquares width height numLayers colors ratioX ratioY (Some 0) tilt offsetX offsetY
       = map_sum id (\<lambda>p. p\<lparr>sq_layerThickness := Some 0\<rparr>)
           (generateConcentricSquares width height numLayers colors ratioX ratioY None tilt offsetX offsetY)
   \<and> generateConcentricCircles width height numLayers colors ratioX ratioY (Some 0) tilt offsetX offsetY
       = map_sum id (\<lambda>p. p\<lparr>ci_layerThickness := Some 0\<rparr>)
           (generateConcentricCircles width height numLayers colors ratioX ratioY None tilt offsetX offsetY)
   \<and> generateConcentricPolygons width height numSides numLayers colors ratioX ratioY (Some 0) tilt
         offsetX offsetY
       = map_sum id (\<lambda>p. p\<lparr>po_layerThickness := Some 0\<rparr>)
           (generateConcentricPolygons width height numSides numLayers colors ratioX ratioY None tilt
              offsetX offsetY)"
proof -
  have 1: "is_truthy layerThickness \<longleftrightarrow> (\<exists>t. layerThickness = Some t \<and> t \<noteq> 0)"
    by (rule is_truthy_iff)
  have 3: "generateConcentricSquares width height numLayers colors ratioX ratioY (Some 0) tilt offsetX offsetY
       = map_sum id (\<lambda>p. p\<lparr>sq_layerThickness := Some 0\<rparr>)
           (generateConcentricSquares width height numLayers colors ratioX ratioY None tilt offsetX offsetY)"
    by (simp add: generateConcentricSquares_def squares_cell_zero_thickness
        actual_layers_zero_thickness split: sum.splits)
  have 4: "generateConcentricCircles width height numLayers colors ratioX ratioY (Some 0) tilt offsetX offsetY
       = map_sum id (\<lambda>p. p\<lparr>ci_layerThickness := Some 0\<rparr>)
           (generateConcentricCircles width height numLayers colors ratioX ratioY None tilt offsetX offsetY)"
    by (simp add: generateConcentricCircles_def circles_cell_zero_thickness
        actual_layers_zero_thickness split: sum.splits)
  have 5: "generateConcentricPolygons width height numSides numLayers colors ratioX ratioY (Some 0) tilt
         offsetX offsetY
       = map_sum id (\<lambda>p. p\<lparr>po_layerThickness := Some 0\<rparr>)
           (generateConcentricPolygons width height numSides numLayers colors ratioX ratioY None tilt
              offsetX offsetY)"
    by (simp add: generateConcentricPolygons_def polygons_cell_zero_thickness
        actual_layers_zero_thickness split: sum.splits)
  show ?thesis
  proof (cases "is_truthy layerThickness")
    case True
    show ?thesis
      unfolding squares_cell_def circles_cell_def polygons_cell_def layer_level_modes
      using True truthy_divisor[OF True] 1 3 4 5 by (simp only: if_True simp_thms)
  next
    case False
    show ?thesis
      unfolding squares_cell_def circles_cell_def polygons_cell_def layer_level_modes
      using False 1 3 4 5 by (simp only: if_False simp_thms)
  qed
qed

subsection \<open>The layer count of thickness mode\<close>























section \<open>The outermost layer in count mode\<close>









































































section \<open>A full turn of tilt\<close>

lemma stripes_cell_floor:
  assumes "colors \<noteq> []" "stripeWidth \<noteq> 0"
  shows "stripes_cell width height stripeWidth colors tilt offsetX offsetY x y
           = cycled_cell colors
               \<lfloor>(rotated_x width height tilt offsetX offsetY x y + 1 / 10 ^ 10) / stripeWidth\<rfloor>"
proof -
  have idx: "js_index colors (Num (real_of_int (k mod int (length colors))))
      = Some (colors ! nat (k mod int (length colors)))" for k
    using assms(1) by (intro js_index_of_int) simp_all
  show ?thesis
    unfolding stripes_cell_def center_Num tiltRad_Num Let_def Num_arith
      Num_divide[OF assms(2)] Math_floor.simps(1) stripe_index[OF assms(1)] idx
      cycled_cell_def rotated_x_def ..
qed

lemma full_turn:
  obtains h where "0 < h" "h < 1 / 10 ^ 15"
    "cos (360 * Math_PI_value / 180) = 1 - 2 * (sin h)\<^sup>2"
    "sin (360 * Math_PI_value / 180) = - (2 * sin h * cos h)"
proof -
  define h where "h = pi - Math_PI_value"
  have h: "0 < h" "h < 1 / 10 ^ 15"
    unfolding h_def using Math_PI_value_less_pi pi_less_Math_PI_value by linarith+
  have e: "360 * Math_PI_value / 180 = 2 * pi - 2 * h" unfolding h_def by simp
  have "cos (2 * pi - 2 * h) = cos (2 * h)" by (rule cos_2pi_minus)
  then have c: "cos (360 * Math_PI_value / 180) = 1 - 2 * (sin h)\<^sup>2"
    unfolding e by (simp only: cos_double_sin)
  have "sin (2 * pi - 2 * h) = - sin (2 * h)" by (rule sin_2pi_minus)
  then have s: "sin (360 * Math_PI_value / 180) = - (2 * sin h * cos h)"
    unfolding e by (simp only: sin_double)
  show ?thesis using that[OF h c s] .
qed

lemma stripes_full_turn_positions:
  "\<lfloor>(rotated_x 1 3 360 (1 / 10 ^ 10) 0 0 0 + 1 / 10 ^ 10) / 1\<rfloor> = 0"
  "\<lfloor>(rotated_x 1 3 360 (1 / 10 ^ 10) 0 0 1 + 1 / 10 ^ 10) / 1\<rfloor> = 0"
  "\<lfloor>(rotated_x 1 3 360 (1 / 10 ^ 10) 0 0 2 + 1 / 10 ^ 10) / 1\<rfloor> = - 1"
proof -
  obtain h where h: "0 < h" "h < 1 / 10 ^ 15"
      and c: "cos (360 * Math_PI_value / 180) = 1 - 2 * (sin h)\<^sup>2"
      and s: "sin (360 * Math_PI_value / 180) = - (2 * sin h * cos h)"
    by (rule full_turn)
  define e :: real where "e = 1 / 10 ^ 10"
  define u where "u = sin h"
  define w where "w = cos h"
  have e: "0 < e" "e < 1 / 4" unfolding e_def by simp_all
  have hpi: "h < pi" using h(2) pi_gt_three by simp
  have u0: "0 < u" unfolding u_def using h(1) hpi by (rule sin_gt_zero)
  have "sin h \<le> h" using h(1) by (intro sin_x_le_x) simp
  then have u1: "u < 1 / 10 ^ 15" unfolding u_def using h(2) by linarith
  have "h \<le> pi / 3" using h(2) pi_gt_three by simp
  then have "cos (pi / 3) \<le> cos h" using h(1) pi_gt_zero by (intro cos_monotone_0_pi_le) simp_all
  then have w0: "1 / 2 \<le> w" unfolding w_def by (simp add: cos_60)
  have w1: "w \<le> 1" unfolding w_def by simp
  have rot: "rotated_x 1 3 360 e 0 0 y + e
      = - e * (1 - 2 * u\<^sup>2) + (real y - 1) * (- (2 * u * w)) + e" for y
    unfolding rotated_x_def c s u_def w_def by simp
  have r0: "rotated_x 1 3 360 (1 / 10 ^ 10) 0 0 0 + 1 / 10 ^ 10 = 2 * u * (e * u + w)"
    unfolding e_def[symmetric] rot by (simp add: algebra_simps power2_eq_square)
  have r1: "rotated_x 1 3 360 (1 / 10 ^ 10) 0 0 1 + 1 / 10 ^ 10 = 2 * u * (e * u)"
    unfolding e_def[symmetric] rot by (simp add: algebra_simps power2_eq_square)
  have r2: "rotated_x 1 3 360 (1 / 10 ^ 10) 0 0 2 + 1 / 10 ^ 10 = - (2 * u * (w - e * u))"
    unfolding e_def[symmetric] rot by (simp add: algebra_simps power2_eq_square)
  have eu: "0 < e * u" "e * u < 1 / 4"
  proof -
    show "0 < e * u" using e(1) u0 by simp
    have "e * u \<le> e * 1" using e(1) u1 by (intro mult_left_mono) simp_all
    then show "e * u < 1 / 4" using e(2) by simp
  qed
  have small: "2 * u * t < 1" if "0 \<le> t" "t \<le> 2" for t
  proof -
    have "2 * u * t \<le> 2 * u * 2" using that u0 by (intro mult_left_mono) simp_all
    moreover have "2 * u * 2 < 1" using u1 by simp
    ultimately show ?thesis by linarith
  qed
  have p0: "0 < 2 * u * (e * u + w)" using u0 eu(1) w0 by simp
  have p1: "0 \<le> 2 * u * (e * u)" using u0 eu(1) by simp
  have p2: "0 < 2 * u * (w - e * u)" using u0 eu(2) w0 by simp
  have q0: "2 * u * (e * u + w) < 1" using eu w0 w1 by (intro small) linarith+
  have q1: "2 * u * (e * u) < 1" using eu by (intro small) linarith+
  have q2: "2 * u * (w - e * u) < 1" using eu w0 w1 by (intro small) linarith+
  show "\<lfloor>(rotated_x 1 3 360 (1 / 10 ^ 10) 0 0 0 + 1 / 10 ^ 10) / 1\<rfloor> = 0"
    unfolding r0 div_by_1 using p0 q0 by (intro floor_unique) simp_all
  show "\<lfloor>(rotated_x 1 3 360 (1 / 10 ^ 10) 0 0 1 + 1 / 10 ^ 10) / 1\<rfloor> = 0"
    unfolding r1 div_by_1 using p1 q1 by (intro floor_unique) simp_all
  show "\<lfloor>(rotated_x 1 3 360 (1 / 10 ^ 10) 0 0 2 + 1 / 10 ^ 10) / 1\<rfloor> = - 1"
    unfolding r2 div_by_1 using p2 q2 by (intro floor_unique) simp_all
qed


lemma new_grid_1x3: "new_grid 1 3 = Inr [[None], [None], [None]]"
  by (simp add: new_grid_def Array_fill_def eval_nat_numeral)

lemma stripes_full_turn_cells:
  "stripes_cell 1 3 1 [''a'', ''b''] 360 (1 / 10 ^ 10) 0 0 0 = \<lparr>cell_color = Some ''a'', cell_level = Num 0\<rparr>"
  "stripes_cell 1 3 1 [''a'', ''b''] 360 (1 / 10 ^ 10) 0 0 (Suc 0) = \<lparr>cell_color = Some ''a'', cell_level = Num 0\<rparr>"
  "stripes_cell 1 3 1 [''a'', ''b''] 360 (1 / 10 ^ 10) 0 0 2 = \<lparr>cell_color = Some ''b'', cell_level = Num 1\<rparr>"
proof -
  have h: "[''a'', ''b''] \<noteq> []" "(1 :: real) \<noteq> 0" by simp_all
  have one: "Suc 0 = 1" by simp
  show "stripes_cell 1 3 1 [''a'', ''b''] 360 (1 / 10 ^ 10) 0 0 0 = \<lparr>cell_color = Some ''a'', cell_level = Num 0\<rparr>"
    unfolding stripes_cell_floor[OF h] stripes_full_turn_positions by (simp add: cycled_cell_def)
  show "stripes_cell 1 3 1 [''a'', ''b''] 360 (1 / 10 ^ 10) 0 0 (Suc 0) = \<lparr>cell_color = Some ''a'', cell_level = Num 0\<rparr>"
    unfolding stripes_cell_floor[OF h] one stripes_full_turn_positions by (simp add: cycled_cell_def)
  show "stripes_cell 1 3 1 [''a'', ''b''] 360 (1 / 10 ^ 10) 0 0 2 = \<lparr>cell_color = Some ''b'', cell_level = Num 1\<rparr>"
    unfolding stripes_cell_floor[OF h] stripes_full_turn_positions by (simp add: cycled_cell_def)
qed

lemma stripes_no_turn_cells:
  "stripes_cell 1 3 1 [''a'', ''b''] 0 (1 / 10 ^ 10) 0 0 y = \<lparr>cell_color = Some ''a'', cell_level = Num 0\<rparr>"
proof -
  have h: "[''a'', ''b''] \<noteq> []" "(1 :: real) \<noteq> 0" by simp_all
  have "\<lfloor>(rotated_x 1 3 0 (1 / 10 ^ 10) 0 0 y + 1 / 10 ^ 10) / 1\<rfloor> = 0"
    by (simp add: rotated_x_def)
  then show ?thesis
    unfolding stripes_cell_floor[OF h] by (simp add: cycled_cell_def)
qed

text \<open>
  C9 fails on the code. \<^verbatim>\<open>Math.PI\<close> is below \<open>\<pi>\<close>, so the angle \<^verbatim>\<open>360 * Math.PI / 180\<close> of
  \<open>tilt = 360\<close> is short of a full turn and its sine is negative, not \<open>0\<close>. With
  \<open>width = 1\<close>, \<open>height = 3\<close>, \<open>stripeWidth = 1\<close>, two colours, \<open>offsetX = 1e-10\<close> and
  \<open>offsetY = 0\<close> every stitch of \<open>tilt = 0\<close> lies on the stripe boundary \<open>rx = 0\<close>, and with
  \<open>tilt = 360\<close> the stitch of the last row falls below it: the stripes generator returns
  the colours \<open>a, a, b\<close> for \<open>tilt = 360\<close> and \<open>a, a, a\<close> for \<open>tilt = 0\<close>.
\<close>

theorem full_turn_changes_stripes:
  "generateStripes 1 3 1 [''a'', ''b''] 360 (1 / 10 ^ 10) 0 =
     Inr \<lparr>p_grid =
            [[Some \<lparr>cell_color = Some ''a'', cell_level = Num 0\<rparr>],
             [Some \<lparr>cell_color = Some ''a'', cell_level = Num 0\<rparr>],
             [Some \<lparr>cell_color = Some ''b'', cell_level = Num 1\<rparr>]],
          p_width = 1, p_height = 3, p_colors = [''a'', ''b''],
          p_offsetX = 1 / 10 ^ 10, p_offsetY = 0, st_stripeWidth = 1, st_tilt = 360\<rparr>
   \<and> generateStripes 1 3 1 [''a'', ''b''] 0 (1 / 10 ^ 10) 0 =
     Inr \<lparr>p_grid =
            [[Some \<lparr>cell_color = Some ''a'', cell_level = Num 0\<rparr>],
             [Some \<lparr>cell_color = Some ''a'', cell_level = Num 0\<rparr>],
             [Some \<lparr>cell_color = Some ''a'', cell_level = Num 0\<rparr>]],
          p_width = 1, p_height = 3, p_colors = [''a'', ''b''],
          p_offsetX = 1 / 10 ^ 10, p_offsetY = 0, st_stripeWidth = 1, st_tilt = 0\<rparr>"
  by (simp add: generateStripes_def new_grid_1x3 fill_grid_new[OF new_grid_1x3] upt3
      stripes_full_turn_cells[simplified] stripes_no_turn_cells[simplified])

section \<open>Stripes\<close>

lemma new_grid_4x1: "new_grid 4 1 = Inr [replicate 4 None]"
  by (simp add: new_grid_def Array_fill_def)

lemma stripes_4x1_cells:
  "stripes_cell 4 1 2 [''a'', ''b''] 0 0 0 0 0 = \<lparr>cell_color = Some ''b'', cell_level = Num 1\<rparr>"
  "stripes_cell 4 1 2 [''a'', ''b''] 0 0 0 (Suc 0) 0 = \<lparr>cell_color = Some ''b'', cell_level = Num 1\<rparr>"
  "stripes_cell 4 1 2 [''a'', ''b''] 0 0 0 2 0 = \<lparr>cell_color = Some ''a'', cell_level = Num 0\<rparr>"
  "stripes_cell 4 1 2 [''a'', ''b''] 0 0 0 3 0 = \<lparr>cell_color = Some ''a'', cell_level = Num 0\<rparr>"
  by (simp_all add: stripes_cell_def center_def tiltRad_def Math_PI_def Let_def trunc_def
      ceiling_minus_half)

text \<open>
  The stripes scenario of the specification: \<open>width = 4\<close>, \<open>height = 1\<close>,
  \<open>stripeWidth = 2\<close>, two colours, no tilt and no offset. The two left cells get one
  colour and the two right cells the other.
\<close>

theorem stripes_4x1_scenario:
  "generateStripes 4 1 2 [''a'', ''b''] 0 0 0 =
     Inr \<lparr>p_grid =
            [[Some \<lparr>cell_color = Some ''b'', cell_level = Num 1\<rparr>,
              Some \<lparr>cell_color = Some ''b'', cell_level = Num 1\<rparr>,
              Some \<lparr>cell_color = Some ''a'', cell_level = Num 0\<rparr>,
              Some \<lparr>cell_color = Some ''a'', cell_level = Num 0\<rparr>]],
          p_width = 4, p_height = 1, p_colors = [''a'', ''b''],
          p_offsetX = 0, p_offsetY = 0, st_stripeWidth = 2, st_tilt = 0\<rparr>"
  by (simp add: generateStripes_def new_grid_4x1 fill_grid_new[OF new_grid_4x1] upt4
      stripes_4x1_cells)

text \<open>
  The stripe index is the non-negative modulus of the integer stripe position, also for
  a negative position: the cell is the one that cycling gives for that position.
\<close>

theorem stripes_index_is_modulus:
  assumes "colors \<noteq> []" and "stripeWidth \<noteq> 0"
  shows "\<exists>stripePos. stripes_cell width height stripeWidth colors tilt offsetX offsetY x y
           = cycled_cell colors stripePos"
  using stripes_cell_eq[OF assms] unfolding cycled_cell_def by blast

theorem stripes_index_witness:
  "[''a'', ''b''] \<noteq> [] \<and> (2 :: real) \<noteq> 0
   \<and> (\<exists>stripePos. stripes_cell 4 1 2 [''a'', ''b''] 0 0 0 0 0 = cycled_cell [''a'', ''b''] stripePos)"
  using stripes_index_is_modulus[of "[''a'', ''b'']" 2 4 1 0 0 0 0 0] by simp

section \<open>The hexagon coordinates of the isometric cubes\<close>

lemma cube_round_sum:
  "cube_round (Num q) (Num r) = (rx, ry, rz) \<Longrightarrow> rx + ry + rz = Num 0"
  by (auto simp: cube_round_def Let_def split: if_splits)

lemma cubes_rounded_finite:
  "\<exists>q r. cubes_rounded width height cubeSize offsetX offsetY x y = cube_round (Num q) (Num r)"
proof -
  have nz: "max 2 cubeSize \<noteq> 0" by simp
  show ?thesis
    unfolding cubes_rounded_def center_Num hexRadius_Num Let_def
    by (simp add: nz) blast
qed

text \<open>
  C4. For every stitch \<open>(x, y)\<close> that the isometric-cubes generator classifies, whatever
  the grid size, cube size and offsets, the rounded cube coordinates that the
  rounding-correction step leaves satisfy \<open>rx + ry + rz = 0\<close> exactly.
\<close>

theorem cube_coordinates_sum_zero:
  "case cubes_rounded width height cubeSize offsetX offsetY x y of
     (rx, ry, rz) \<Rightarrow> rx + ry + rz = Num 0"
proof -
  obtain q r where
    "cubes_rounded width height cubeSize offsetX offsetY x y = cube_round (Num q) (Num r)"
    using cubes_rounded_finite by blast
  then show ?thesis
    by (auto dest: cube_round_sum split: prod.splits)
qed

section \<open>The 3 by 3 rectangles scenario\<close>

lemma new_grid_3: "new_grid 3 3 = Inr (replicate 3 (replicate 3 None))"
  by (simp add: new_grid_def Array_fill_def map_replicate_const)

lemma squares_3x3_maxDistance: "squares_maxDistance 3 3 1 1 0 0 0 = Num (1 + 1 / 10 ^ 10)"
  by (simp add: squares_maxDistance_def corners_def center_def tiltRad_def Math_PI_def
      squares_rx_def squares_ry_def Let_def)

lemma squares_3x3_distance: "squares_distance 3 3 1 1 0 0 0 x y
   = Num (max (\<bar>real x - 1\<bar> + 1 / 10 ^ 10) (\<bar>real y - 1\<bar> + 1 / 10 ^ 10))"
  by (simp add: squares_distance_def center_def tiltRad_def Math_PI_def
      squares_rx_def squares_ry_def Let_def)

lemma squares_3x3_ring:
  "squares_cell 3 3 2 [''red'', ''blue''] 1 1 None 0 0 0 0 0 = \<lparr>cell_color = Some ''blue'', cell_level = Num 1\<rparr>"
  "squares_cell 3 3 2 [''red'', ''blue''] 1 1 None 0 0 0 (Suc 0) 0 = \<lparr>cell_color = Some ''blue'', cell_level = Num 1\<rparr>"
  "squares_cell 3 3 2 [''red'', ''blue''] 1 1 None 0 0 0 2 0 = \<lparr>cell_color = Some ''blue'', cell_level = Num 1\<rparr>"
  "squares_cell 3 3 2 [''red'', ''blue''] 1 1 None 0 0 0 0 (Suc 0) = \<lparr>cell_color = Some ''blue'', cell_level = Num 1\<rparr>"
  "squares_cell 3 3 2 [''red'', ''blue''] 1 1 None 0 0 0 2 (Suc 0) = \<lparr>cell_color = Some ''blue'', cell_level = Num 1\<rparr>"
  "squares_cell 3 3 2 [''red'', ''blue''] 1 1 None 0 0 0 0 2 = \<lparr>cell_color = Some ''blue'', cell_level = Num 1\<rparr>"
  "squares_cell 3 3 2 [''red'', ''blue''] 1 1 None 0 0 0 (Suc 0) 2 = \<lparr>cell_color = Some ''blue'', cell_level = Num 1\<rparr>"
  "squares_cell 3 3 2 [''red'', ''blue''] 1 1 None 0 0 0 2 2 = \<lparr>cell_color = Some ''blue'', cell_level = Num 1\<rparr>"
  by (simp_all add: squares_cell_def squares_3x3_maxDistance squares_3x3_distance layer_level_def layer_cell_def js_or_def trunc_def)

lemma squares_3x3_centre: "squares_cell 3 3 2 [''red'', ''blue''] 1 1 None 0 0 0 (Suc 0) (Suc 0) = \<lparr>cell_color = Some ''red'', cell_level = Num 0\<rparr>"
  by (simp add: squares_cell_def squares_3x3_maxDistance squares_3x3_distance layer_level_def layer_cell_def js_or_def trunc_def)

text \<open>
  C8. \<open>generate(rectangles)\<close> with \<open>width = 3\<close>, \<open>height = 3\<close>, \<open>layerCount = 2\<close>,
  \<open>colors = ['red', 'blue']\<close>, \<open>ratioX = ratioY = 1\<close>, \<open>tilt = 0\<close> and no offset gives the
  centre cell \<open>(1, 1)\<close> level 0 and colour red, and the four corners and the four
  edge midpoints level 1 and colour blue. The whole returned object is computed.
\<close>

theorem rectangles_3x3_scenario:
  "generateConcentricSquares 3 3 2 [''red'', ''blue''] 1 1 None 0 0 0 =
     Inr \<lparr>p_grid =
            [[Some \<lparr>cell_color = Some ''blue'', cell_level = Num 1\<rparr>,
              Some \<lparr>cell_color = Some ''blue'', cell_level = Num 1\<rparr>,
              Some \<lparr>cell_color = Some ''blue'', cell_level = Num 1\<rparr>],
             [Some \<lparr>cell_color = Some ''blue'', cell_level = Num 1\<rparr>,
              Some \<lparr>cell_color = Some ''red'', cell_level = Num 0\<rparr>,
              Some \<lparr>cell_color = Some ''blue'', cell_level = Num 1\<rparr>],
             [Some \<lparr>cell_color = Some ''blue'', cell_level = Num 1\<rparr>,
              Some \<lparr>cell_color = Some ''blue'', cell_level = Num 1\<rparr>,
              Some \<lparr>cell_color = Some ''blue'', cell_level = Num 1\<rparr>]],
          p_width = 3, p_height = 3, p_colors = [''red'', ''blue''],
          p_offsetX = 0, p_offsetY = 0,
          sq_numSquares = Num 2, sq_ratioX = 1, sq_ratioY = 1, sq_layerThickness = None,
          sq_tilt = 0\<rparr>"
  by (simp add: generateConcentricSquares_def new_grid_3 fill_grid_new[OF new_grid_3] upt3
        actual_layers_def squares_3x3_ring squares_3x3_centre)

end
